theory Spec2Isabelle
  imports Complex_Main "HOL-Library.AList" "HOL-Library.Char_ord" "HOL-Library.List_Lexorder"
begin

section \<open>Python objects: attribute tables, errors, values\<close>

text \<open>
  The hook of \<^verbatim>\<open>syft_tensorflow/hook/hook.py\<close> works by reading and writing attributes
  of classes and modules. An object's attribute table is an association list from
  attribute names to values; \<open>hasattr\<close>, \<open>getattr\<close> and \<open>setattr\<close> are Python's, and
  \<open>dir\<close> lists the names in sorted order, as Python's \<^verbatim>\<open>dir()\<close> does. Attribute names
  are strings of code points below 256.
\<close>

datatype error =
    AttributeError string
  | IndexError
  | AssertionError
  | LocationMismatchError
  | UnresolvedPointerError

type_synonym 'v namespace = "(string \<times> 'v) list"

definition hasattr :: "'v namespace \<Rightarrow> string \<Rightarrow> bool" where
  "hasattr ns a = (map_of ns a \<noteq> None)"

definition getattr :: "'v namespace \<Rightarrow> string \<Rightarrow> error + 'v" where
  "getattr ns a = (case map_of ns a of None \<Rightarrow> Inl (AttributeError a) | Some v \<Rightarrow> Inr v)"

definition setattr :: "'v namespace \<Rightarrow> string \<Rightarrow> 'v \<Rightarrow> 'v namespace" where
  "setattr ns a v = AList.update a v ns"

definition dir :: "'v namespace \<Rightarrow> string list" where
  "dir ns = sort (remdups (map fst ns))"

text \<open>The f-string \<^verbatim>\<open>f"native_{attr}"\<close>.\<close>

definition native_name :: "string \<Rightarrow> string" where
  "native_name a = ''native_'' @ a"

text \<open>Python's substring test \<^verbatim>\<open>p in s\<close> on strings.\<close>

fun str_contains :: "string \<Rightarrow> string \<Rightarrow> bool" where
  "str_contains p [] = (p = [])"
| "str_contains p (c # cs) = (take (length p) (c # cs) = p \<or> str_contains p cs)"

text \<open>
  \<^verbatim>\<open>str.isupper()\<close> of a one-character string. A character of the model is a code
  point below 256; the upper-case letters among them are \<open>A\<close> to \<open>Z\<close> (65 to 90)
  and the Latin-1 capitals 192 to 214 and 216 to 222.
\<close>

definition isupper :: "char \<Rightarrow> bool" where
  "isupper c =
     (let n = (of_char c :: nat)
      in (65 \<le> n \<and> n \<le> 90) \<or> (192 \<le> n \<and> n \<le> 214) \<or> (216 \<le> n \<and> n \<le> 222))"

text \<open>
  The values that occur as attributes. \<open>Native\<close> is an object the framework (or the
  syft tensor class) ships, named by a label; the others are the objects the hook
  itself creates: the marker \<^verbatim>\<open>True\<close>, a reference to a hook instance, references
  to classes and modules, the closure \<^verbatim>\<open>new___init__\<close> (over \<^verbatim>\<open>hook_self\<close> and
  \<^verbatim>\<open>is_tensor\<close>), the property objects of \<^verbatim>\<open>_hook_properties\<close>, \<^verbatim>\<open>dim\<close>,
  \<^verbatim>\<open>module_send_\<close>, \<^verbatim>\<open>module_get_\<close>, and an overloaded function wrapping its native.
\<close>

datatype property_kind = PLocation | PIdAtLocation | PId | POwner nat | PIsWrapper

datatype pyval =
    Native string
  | PyBool bool
  | HookRef nat
  | ClassRef nat
  | ModuleRef nat
  | NewInit nat bool
  | Property property_kind
  | DimFn
  | ModuleSend
  | ModuleGet
  | Overloaded pyval

section \<open>\<^verbatim>\<open>_add_methods_from_native_tensor\<close>\<close>

definition exclude :: "string list" where
  "exclude =
    [''__class__'', ''__delattr__'', ''__dir__'', ''__doc__'', ''__dict__'', ''__format__'',
     ''__getattribute__'', ''__hash__'', ''__init__'', ''__init_subclass__'', ''__weakref__'',
     ''__ne__'', ''__new__'', ''__reduce__'', ''__reduce_ex__'', ''__setattr__'',
     ''__sizeof__'', ''__subclasshook__'', ''__gt__'', ''__ge__'', ''__lt__'', ''__le__'']"

text \<open>
  One pass of the loop body for \<open>attr\<close>: alias the attribute the tensor type has now,
  then copy \<^verbatim>\<open>getattr(TensorFlowTensor, attr)\<close>. The source reads the global class
  \<^verbatim>\<open>TensorFlowTensor\<close> here, not its parameter \<^verbatim>\<open>syft_type\<close>; \<open>tft\<close> is that class.
\<close>

definition add_method :: "'v namespace \<Rightarrow> 'v namespace \<Rightarrow> string \<Rightarrow> error + 'v namespace" where
  "add_method tft tensor_type attr =
     (if attr \<notin> set exclude then
        (let aliased =
           (case map_of tensor_type attr of
              Some old \<Rightarrow> setattr tensor_type (native_name attr) old
            | None \<Rightarrow> tensor_type)
         in case getattr tft attr of
              Inl e \<Rightarrow> Inl e
            | Inr v \<Rightarrow> Inr (setattr aliased attr v))
      else Inr tensor_type)"

fun add_methods_loop :: "'v namespace \<Rightarrow> 'v namespace \<Rightarrow> string list \<Rightarrow> error + 'v namespace" where
  "add_methods_loop tft tensor_type [] = Inr tensor_type"
| "add_methods_loop tft tensor_type (attr # rest) =
     (case add_method tft tensor_type attr of
        Inl e \<Rightarrow> Inl e
      | Inr tensor_type' \<Rightarrow> add_methods_loop tft tensor_type' rest)"

definition add_methods_from_native_tensor ::
  "'v namespace \<Rightarrow> 'v namespace \<Rightarrow> 'v namespace \<Rightarrow> error + 'v namespace" where
  "add_methods_from_native_tensor tft tensor_type syft_type =
     add_methods_loop tft tensor_type (dir syft_type)"

text \<open>
  The syft tensor type defines no attribute whose name is \<open>native_\<close> followed by the
  name of another attribute it installs: then no alias written by the loop is
  overwritten by a later copy, and no copy by a later alias.
\<close>

definition no_native_clash :: "'v namespace \<Rightarrow> bool" where
  "no_native_clash syft_type =
     (\<forall>a \<in> set (dir syft_type). \<forall>b \<in> set (dir syft_type).
        a \<notin> set exclude \<and> b \<notin> set exclude \<longrightarrow> a \<noteq> native_name b)"

section \<open>\<^verbatim>\<open>_hook_tensorflow_module\<close>\<close>

text \<open>
  Modelled from the spec: \<^verbatim>\<open>_perform_function_overloading\<close> is inherited from syft's
  \<^verbatim>\<open>FrameworkHook\<close> and is not among the sources. The spec (4.3, and the Overload
  Record of section 3) says it replaces the symbol with a version that delegates to
  the native implementation, which is remembered under the \<open>native_<name>\<close> alias.
\<close>

definition perform_function_overloading ::
  "pyval namespace \<Rightarrow> string \<Rightarrow> error + pyval namespace" where
  "perform_function_overloading tensorflow_module func =
     (case getattr tensorflow_module func of
        Inl e \<Rightarrow> Inl e
      | Inr native_func \<Rightarrow>
          Inr (setattr (setattr tensorflow_module (native_name func) native_func)
                 func (Overloaded native_func)))"

text \<open>
  The body of the inner loop for one name: \<^verbatim>\<open>continue\<close> leaves the module as it
  is, and \<^verbatim>\<open>func[0]\<close> raises IndexError on the empty name. The overloader
  \<^verbatim>\<open>self._perform_function_overloading\<close> is inherited from syft's \<^verbatim>\<open>FrameworkHook\<close>:
  it is the parameter \<open>perform\<close>.
\<close>

type_synonym overloader = "pyval namespace \<Rightarrow> string \<Rightarrow> error + pyval namespace"

definition hook_func ::
  "overloader \<Rightarrow> string list \<Rightarrow> pyval namespace \<Rightarrow> string \<Rightarrow> error + pyval namespace" where
  "hook_func perform excl tensorflow_module func =
     (if func \<in> set excl then Inr tensorflow_module
      else if str_contains ''__'' func then Inr tensorflow_module
      else (case func of
              [] \<Rightarrow> Inl IndexError
            | c # _ \<Rightarrow>
                if isupper c then Inr tensorflow_module
                else if c = CHR ''_'' then Inr tensorflow_module
                else if str_contains ''native_'' func
                        \<or> native_name func \<in> set (dir tensorflow_module)
                  then Inr tensorflow_module
                else perform tensorflow_module func))"

fun hook_funcs ::
  "overloader \<Rightarrow> string list \<Rightarrow> pyval namespace \<Rightarrow> string list \<Rightarrow> error + pyval namespace" where
  "hook_funcs perform excl tensorflow_module [] = Inr tensorflow_module"
| "hook_funcs perform excl tensorflow_module (func # rest) =
     (case hook_func perform excl tensorflow_module func of
        Inl e \<Rightarrow> Inl e
      | Inr tensorflow_module' \<Rightarrow> hook_funcs perform excl tensorflow_module' rest)"

text \<open>\<^verbatim>\<open>for func in dir(tensorflow_module)\<close>: the names are listed once, before the loop.\<close>

definition hook_module ::
  "overloader \<Rightarrow> string list \<Rightarrow> pyval namespace \<Rightarrow> error + pyval namespace" where
  "hook_module perform excl tensorflow_module =
     hook_funcs perform excl tensorflow_module (dir tensorflow_module)"

text \<open>
  The contract of the overloader, after the spec (4.3 and the Overload Record of
  section 3): on a symbol the namespace defines it succeeds, puts the wrapped
  version in the symbol's place, keeps the original under \<open>native_<name>\<close>, and
  touches nothing else; a wrapped function is never the function it wraps.
\<close>

definition replaces_symbol :: "overloader \<Rightarrow> (pyval \<Rightarrow> pyval) \<Rightarrow> bool" where
  "replaces_symbol perform wrap =
     ((\<forall>v. wrap v \<noteq> v) \<and>
      (\<forall>m func v. map_of m func = Some v \<longrightarrow>
         (\<exists>m'. perform m func = Inr m'
            \<and> map_of m' = (map_of m)(native_name func \<mapsto> v, func \<mapsto> wrap v))))"

text \<open>The test the source applies to a name, all of it.\<close>

definition overloadable :: "string list \<Rightarrow> pyval namespace \<Rightarrow> string \<Rightarrow> bool" where
  "overloadable excl tensorflow_module func =
     (func \<notin> set excl \<and> \<not> str_contains ''__'' func \<and> \<not> isupper (hd func)
      \<and> hd func \<noteq> CHR ''_'' \<and> \<not> str_contains ''native_'' func
      \<and> \<not> hasattr tensorflow_module (native_name func))"

text \<open>
  A double-underscore (dunder) name: it starts and ends with two underscores, with
  something in between.
\<close>

definition is_dunder :: "string \<Rightarrow> bool" where
  "is_dunder func =
     (4 < length func \<and> take 2 func = ''__'' \<and> drop (length func - 2) func = ''__'')"

text \<open>
  The test as the specification words it: not excluded, not a dunder name, not
  starting with an uppercase letter or an underscore, and no \<open>native_<name>\<close> alias
  in the namespace.
\<close>

definition spec_overloadable :: "string list \<Rightarrow> pyval namespace \<Rightarrow> string \<Rightarrow> bool" where
  "spec_overloadable excl tensorflow_module func =
     (func \<notin> set excl \<and> \<not> is_dunder func \<and> \<not> isupper (hd func)
      \<and> hd func \<noteq> CHR ''_'' \<and> \<not> hasattr tensorflow_module (native_name func))"

text \<open>
  The names the walk is meant to leave alone: excluded names, dunder names, names
  starting with an uppercase letter or an underscore, the aliases \<open>native_<name>\<close>
  themselves, and names whose alias is present.
\<close>

definition skipped_by_design :: "string list \<Rightarrow> pyval namespace \<Rightarrow> string \<Rightarrow> bool" where
  "skipped_by_design excl tensorflow_module func =
     (func \<in> set excl \<or> is_dunder func \<or> isupper (hd func) \<or> hd func = CHR ''_''
      \<or> take 7 func = ''native_'' \<or> hasattr tensorflow_module (native_name func))"

section \<open>\<^verbatim>\<open>_get_hooked_func\<close>\<close>

text \<open>
  A function object, as far as \<^verbatim>\<open>_get_hooked_func\<close> looks at it: the two optional
  tuples of API names and \<^verbatim>\<open>__module__\<close>.
\<close>

record func_obj =
  tf_api_names :: "string list option"
  keras_api_names :: "string list option"
  fn_module :: string

text \<open>\<^verbatim>\<open>s.split(".")\<close>, \<^verbatim>\<open>xs[:-1]\<close> is \<open>butlast\<close>, and \<^verbatim>\<open>".".join(xs)\<close>.\<close>

fun split_dot :: "string \<Rightarrow> string list" where
  "split_dot [] = [[]]"
| "split_dot (c # cs) =
     (if c = CHR ''.'' then [] # split_dot cs
      else (case split_dot cs of
              [] \<Rightarrow> [[c]]
            | w # ws \<Rightarrow> (c # w) # ws))"

fun join_dot :: "string list \<Rightarrow> string" where
  "join_dot [] = []"
| "join_dot [w] = w"
| "join_dot (w # v # ws) = w @ ''.'' @ join_dot (v # ws)"

definition submodule_of :: "string \<Rightarrow> string" where
  "submodule_of api_name = join_dot (butlast (split_dot api_name))"

text \<open>
  The two rewrites of \<^verbatim>\<open>attr.__module__\<close>. Each returns the function object as it is
  when the block ends, with the error if the block raised.
\<close>

definition rewrite_tf :: "func_obj \<Rightarrow> error option \<times> func_obj" where
  "rewrite_tf attr =
     (case tf_api_names attr of
        None \<Rightarrow> (None, attr)
      | Some [] \<Rightarrow> (Some AssertionError, attr)
      | Some (first # _) \<Rightarrow>
          (let new_submodule = submodule_of first in
           if new_submodule \<noteq> []
           then (None, attr\<lparr>fn_module := join_dot [''tensorflow'', new_submodule]\<rparr>)
           else (None, attr\<lparr>fn_module := ''tensorflow''\<rparr>)))"

definition rewrite_keras :: "func_obj \<Rightarrow> error option \<times> func_obj" where
  "rewrite_keras attr =
     (case keras_api_names attr of
        None \<Rightarrow> (None, attr)
      | Some [] \<Rightarrow> (Some AssertionError, attr)
      | Some (first # _) \<Rightarrow>
          (let new_submodule = submodule_of first in
           (None, attr\<lparr>fn_module := join_dot [''tensorflow'', new_submodule]\<rparr>)))"

text \<open>
  \<open>super_get_hooked_func\<close> is \<^verbatim>\<open>FrameworkHook._get_hooked_func\<close>, of the syft library:
  a parameter. The result is the function object after the call, and what the call
  returns or raises.
\<close>

definition get_hooked_func ::
  "(func_obj \<Rightarrow> 'r) \<Rightarrow> func_obj \<Rightarrow> func_obj \<times> (error + 'r)" where
  "get_hooked_func super_get_hooked_func attr =
     (case rewrite_tf attr of
        (Some e, attr1) \<Rightarrow> (attr1, Inl e)
      | (None, attr1) \<Rightarrow>
          (case rewrite_keras attr1 of
             (Some e, attr2) \<Rightarrow> (attr2, Inl e)
           | (None, attr2) \<Rightarrow> (attr2, Inr (super_get_hooked_func attr2))))"

section \<open>Process-wide state\<close>

text \<open>
  Modules and classes are objects with an attribute table, addressed by reference.
  \<open>Tensor\<close> (\<^verbatim>\<open>tensorflow.python.framework.ops.Tensor\<close>) and \<open>TensorFlowTensor\<close> are the
  two classes the hook file imports at its top: fixed references to two different
  class objects.
\<close>

definition Tensor :: nat where
  "Tensor = 0"

definition TensorFlowTensor :: nat where
  "TensorFlowTensor = 1"

record hook_obj =
  tensorflow :: nat
  framework :: nat
  local_worker :: "nat option"
  to_auto_overload :: "(nat \<times> string list) list option"
  args_hook_for_overloaded_attr :: "(string \<times> string) list option"

record worker_obj =
  worker_id :: string
  worker_hook :: "nat option"
  is_client_worker :: bool

record tf_attributes =
  attrs_hook :: nat
  tensorflow_modules :: "(string \<times> nat) list"
  attrs_exclude :: "string list"

text \<open>
  \<open>syft_tensorflow\<close>, \<open>syft_framework\<close>, \<open>syft_local_worker\<close> and \<open>syft_hook\<close> are the
  attributes of the package \<^verbatim>\<open>syft\<close>; \<open>log\<close> holds the messages given to
  \<^verbatim>\<open>logging.warning\<close>; \<open>next_worker\<close> is where the next worker object is allocated.
\<close>

record state =
  modules :: "nat \<Rightarrow> pyval namespace"
  classes :: "nat \<Rightarrow> pyval namespace"
  hooks :: "nat \<Rightarrow> hook_obj"
  workers :: "nat \<Rightarrow> worker_obj"
  next_worker :: nat
  syft_tensorflow :: "tf_attributes option"
  syft_framework :: "tf_attributes option"
  syft_local_worker :: "nat option"
  syft_hook :: "nat option"
  log :: "string list"

text \<open>
  What the hook takes from code that is not in this file: the overloader it inherits
  from \<^verbatim>\<open>FrameworkHook\<close>, and the namespaces and the exclusion set that
  \<^verbatim>\<open>TensorFlowAttributes\<close> configures for a framework module.
\<close>

record collaborators =
  perform_overloading :: overloader
  configured_modules :: "nat \<Rightarrow> (string \<times> nat) list"
  configured_exclude :: "string list"

text \<open>
  Modelled from the spec: the class \<^verbatim>\<open>TensorFlowAttributes\<close>
  (\<^verbatim>\<open>syft_tensorflow/attributes.py\<close>) is not among the sources. The hook reads three
  attributes of its instances: \<^verbatim>\<open>hook\<close>, \<^verbatim>\<open>tensorflow_modules\<close> (the spec's configured
  namespaces) and \<^verbatim>\<open>exclude\<close> (the spec's explicit exclusion set).
\<close>

definition TensorFlowAttributes :: "collaborators \<Rightarrow> nat \<Rightarrow> nat \<Rightarrow> tf_attributes" where
  "TensorFlowAttributes ext tf hook =
     \<lparr>attrs_hook = hook, tensorflow_modules = configured_modules ext tf,
      attrs_exclude = configured_exclude ext\<rparr>"

text \<open>
  Modelled from the spec: \<^verbatim>\<open>VirtualWorker\<close> is a class of the syft library. The spec
  (4.4) has the Local Worker created at hook-install time; the constructor call
  allocates a worker object that holds the three arguments.
\<close>

definition VirtualWorker :: "nat \<Rightarrow> bool \<Rightarrow> string \<Rightarrow> state \<Rightarrow> nat \<times> state" where
  "VirtualWorker hook is_client wid s =
     (let w = next_worker s in
      (w, s\<lparr>workers := (workers s)
               (w := \<lparr>worker_id = wid, worker_hook = Some hook, is_client_worker = is_client\<rparr>),
             next_worker := Suc w\<rparr>))"

section \<open>\<^verbatim>\<open>_add_registration_to___init__\<close> and \<^verbatim>\<open>_hook_properties\<close>\<close>

definition add_registration_to_init ::
  "nat \<Rightarrow> pyval namespace \<Rightarrow> bool \<Rightarrow> error + pyval namespace" where
  "add_registration_to_init hook_self tensor_type is_tensor =
     (case (if ''native___init__'' \<notin> set (dir tensor_type)
            then (case getattr tensor_type ''__init__'' of
                    Inl e \<Rightarrow> Inl e
                  | Inr init \<Rightarrow> Inr (setattr tensor_type ''native___init__'' init))
            else Inr tensor_type) of
        Inl e \<Rightarrow> Inl e
      | Inr tensor_type' \<Rightarrow>
          Inr (setattr tensor_type' ''__init__'' (NewInit hook_self is_tensor)))"

definition hook_properties :: "nat \<Rightarrow> pyval namespace \<Rightarrow> error + pyval namespace" where
  "hook_properties hook_self tensor_type =
     (let t1 = setattr tensor_type ''location'' (Property PLocation);
          t2 = setattr t1 ''id_at_location'' (Property PIdAtLocation);
          t3 = setattr t2 ''id'' (Property PId);
          t4 = setattr t3 ''owner'' (Property (POwner hook_self));
          t5 = setattr t4 ''is_wrapper'' (Property PIsWrapper)
      in case getattr t5 ''shape'' of
           Inl e \<Rightarrow> Inl e
         | Inr shape \<Rightarrow> Inr (setattr (setattr t5 ''native_shape'' shape) ''dim'' DimFn))"

text \<open>
  The instance attributes behind the properties: \<^verbatim>\<open>_syft_id\<close>, \<^verbatim>\<open>_owner\<close> and
  \<^verbatim>\<open>_is_wrapper\<close>, each absent (\<open>None\<close>) until first written. An owner is a worker
  reference or Python's \<^verbatim>\<open>None\<close>.
\<close>

record tensor_inst =
  syft_id :: "nat option"
  owner_attr :: "nat option option"
  is_wrapper_attr :: "bool option"


definition id_setter :: "'z tensor_inst_scheme \<Rightarrow> nat \<Rightarrow> 'z tensor_inst_scheme" where
  "id_setter self new_syft_id = self\<lparr>syft_id := Some new_syft_id\<rparr>"


definition owner_setter :: "'z tensor_inst_scheme \<Rightarrow> nat option \<Rightarrow> 'z tensor_inst_scheme" where
  "owner_setter self new_owner = self\<lparr>owner_attr := Some new_owner\<rparr>"

definition is_wrapper_getter :: "'z tensor_inst_scheme \<Rightarrow> bool \<times> 'z tensor_inst_scheme" where
  "is_wrapper_getter self =
     (case is_wrapper_attr self of
        None \<Rightarrow> (False, self\<lparr>is_wrapper_attr := Some False\<rparr>)
      | Some b \<Rightarrow> (b, self))"

definition is_wrapper_setter :: "'z tensor_inst_scheme \<Rightarrow> bool \<Rightarrow> 'z tensor_inst_scheme" where
  "is_wrapper_setter self it_is_a_wrapper = self\<lparr>is_wrapper_attr := Some it_is_a_wrapper\<rparr>"



text \<open>
  Modelled from the spec: \<^verbatim>\<open>initialize_tensor\<close> is imported from \<^verbatim>\<open>syft.generic.tensor\<close>
  and is not among the sources. The spec (4.1) says the constructor performs identity
  initialization (assign or generate the id, resolve the owner, mark
  \<open>is_wrapper = False\<close>) before delegating to the preserved native constructor with
  the remaining positional and keyword arguments. \<open>call\<close> runs a constructor, given
  as a value, on the instance.
\<close>

definition initialize_tensor ::
  "('g \<Rightarrow> nat \<times> 'g)
   \<Rightarrow> (pyval \<Rightarrow> 'z tensor_inst_scheme \<Rightarrow> 'a list \<Rightarrow> (string \<times> 'a) list \<Rightarrow> 'z tensor_inst_scheme)
   \<Rightarrow> state \<Rightarrow> nat \<Rightarrow> pyval namespace \<Rightarrow> 'z tensor_inst_scheme \<Rightarrow> nat option \<Rightarrow> nat option
   \<Rightarrow> bool \<Rightarrow> 'a list \<Rightarrow> (string \<times> 'a) list \<Rightarrow> 'g \<Rightarrow> error + ('z tensor_inst_scheme \<times> 'g)" where
  "initialize_tensor pop call s hook_self tensor_type cls owner ident is_tensor
       init_args init_kwargs g =
     (let (i, g') = (case ident of Some i \<Rightarrow> (i, g) | None \<Rightarrow> pop g);
          resolved = (case owner of Some w \<Rightarrow> Some w | None \<Rightarrow> local_worker (hooks s hook_self));
          cls' = is_wrapper_setter (owner_setter (id_setter cls i) resolved) False
      in case getattr tensor_type ''native___init__'' of
           Inl e \<Rightarrow> Inl e
         | Inr native_init \<Rightarrow> Inr (call native_init cls' init_args init_kwargs, g'))"

text \<open>
  The closure \<^verbatim>\<open>new___init__\<close>: it takes \<open>owner\<close>, \<open>ident\<close> (\<^verbatim>\<open>id\<close>) and \<open>register\<close>
  besides the positional and keyword arguments, and its body is one call of
  \<^verbatim>\<open>initialize_tensor\<close>, here the parameter \<open>initialize\<close>, with \<open>hook_self\<close>, \<open>cls\<close>, the
  id, \<open>is_tensor\<close>, \<open>args\<close> and \<open>kwargs\<close>. No owner is passed, so the callee sees its
  default, \<^verbatim>\<open>None\<close>.
\<close>

definition new_init ::
  "(nat \<Rightarrow> 'c \<Rightarrow> nat option \<Rightarrow> nat option \<Rightarrow> bool \<Rightarrow> 'a list \<Rightarrow> (string \<times> 'a) list \<Rightarrow> 'r)
   \<Rightarrow> nat \<Rightarrow> bool \<Rightarrow> 'c \<Rightarrow> 'a list \<Rightarrow> nat option \<Rightarrow> nat option \<Rightarrow> bool
   \<Rightarrow> (string \<times> 'a) list \<Rightarrow> 'r" where
  "new_init initialize hook_self is_tensor cls args owner ident register kwargs =
     initialize hook_self cls None ident is_tensor args kwargs"

section \<open>\<^verbatim>\<open>_hook_native_tensor\<close>, the module walk and \<^verbatim>\<open>_hook_keras_module\<close> on the state\<close>

definition hook_native_tensor :: "nat \<Rightarrow> nat \<Rightarrow> nat \<Rightarrow> state \<Rightarrow> error + state" where
  "hook_native_tensor hook_self tensor_type syft_type s =
     (case add_registration_to_init hook_self (classes s tensor_type) True of
        Inl e \<Rightarrow> Inl e
      | Inr t1 \<Rightarrow>
          (case hook_properties hook_self t1 of
             Inl e \<Rightarrow> Inl e
           | Inr t2 \<Rightarrow>
               (case add_methods_from_native_tensor (classes s TensorFlowTensor) t2
                       (classes s syft_type) of
                  Inl e \<Rightarrow> Inl e
                | Inr t3 \<Rightarrow> Inr (s\<lparr>classes := (classes s)(tensor_type := t3)\<rparr>))))"

fun hook_modules ::
  "overloader \<Rightarrow> string list \<Rightarrow> (string \<times> nat) list \<Rightarrow> state \<Rightarrow> error + state" where
  "hook_modules perform excl [] s = Inr s"
| "hook_modules perform excl ((module_name, m) # rest) s =
     (case hook_module perform excl (modules s m) of
        Inl e \<Rightarrow> Inl e
      | Inr ns \<Rightarrow> hook_modules perform excl rest (s\<lparr>modules := (modules s)(m := ns)\<rparr>))"

definition hook_tensorflow_module :: "collaborators \<Rightarrow> state \<Rightarrow> error + state" where
  "hook_tensorflow_module ext s =
     (case syft_tensorflow s of
        None \<Rightarrow> Inl (AttributeError ''tensorflow_modules'')
      | Some attrs \<Rightarrow>
          hook_modules (perform_overloading ext) (attrs_exclude attrs) (tensorflow_modules attrs) s)"

text \<open>
  \<^verbatim>\<open>self.tensorflow.Module.<name> = v\<close>: the attribute \<^verbatim>\<open>Module\<close> of the framework module
  is looked up, and \<open>name\<close> is set on the class (or module) it refers to. A value
  without an attribute table of its own cannot take the attribute.
\<close>

definition set_on_Module :: "nat \<Rightarrow> string \<Rightarrow> pyval \<Rightarrow> state \<Rightarrow> error + state" where
  "set_on_Module hook_self name v s =
     (case getattr (modules s (tensorflow (hooks s hook_self))) ''Module'' of
        Inl e \<Rightarrow> Inl e
      | Inr (ClassRef c) \<Rightarrow> Inr (s\<lparr>classes := (classes s)(c := setattr (classes s c) name v)\<rparr>)
      | Inr (ModuleRef m) \<Rightarrow> Inr (s\<lparr>modules := (modules s)(m := setattr (modules s m) name v)\<rparr>)
      | Inr _ \<Rightarrow> Inl (AttributeError name))"

definition hook_keras_module :: "nat \<Rightarrow> state \<Rightarrow> error + state" where
  "hook_keras_module hook_self s =
     (case set_on_Module hook_self ''send'' ModuleSend s of
        Inl e \<Rightarrow> Inl e
      | Inr s1 \<Rightarrow>
          (case set_on_Module hook_self ''send_'' ModuleSend s1 of
             Inl e \<Rightarrow> Inl e
           | Inr s2 \<Rightarrow>
               (case set_on_Module hook_self ''get_'' ModuleGet s2 of
                  Inl e \<Rightarrow> Inl e
                | Inr s3 \<Rightarrow> set_on_Module hook_self ''get'' ModuleGet s3)))"

text \<open>
  The functions \<^verbatim>\<open>module_send_\<close> and \<^verbatim>\<open>module_get_\<close>. The tensor methods \<^verbatim>\<open>send_\<close> and
  \<^verbatim>\<open>get_\<close> and the framework's \<^verbatim>\<open>weights\<close> are parameters; \<open>w\<close> is the state they act on,
  weights are references into it, and \<^verbatim>\<open>force_send\<close> is not used by the source.
\<close>

fun send_each ::
  "(nat \<Rightarrow> 'd \<Rightarrow> 'k \<Rightarrow> 'w \<Rightarrow> error + 'w) \<Rightarrow> nat list \<Rightarrow> 'd \<Rightarrow> 'k \<Rightarrow> 'w \<Rightarrow> error + 'w" where
  "send_each send_inplace [] dest kwargs w = Inr w"
| "send_each send_inplace (p # ps) dest kwargs w =
     (case send_inplace p dest kwargs w of
        Inl e \<Rightarrow> Inl e
      | Inr w' \<Rightarrow> send_each send_inplace ps dest kwargs w')"

definition module_send ::
  "(nat \<Rightarrow> 'd \<Rightarrow> 'k \<Rightarrow> 'w \<Rightarrow> error + 'w) \<Rightarrow> ('w \<Rightarrow> nat \<Rightarrow> nat list)
   \<Rightarrow> nat \<Rightarrow> 'd \<Rightarrow> bool \<Rightarrow> 'k \<Rightarrow> 'w \<Rightarrow> error + (nat \<times> 'w)" where
  "module_send send_inplace weights nn_self dest force_send kwargs w =
     (case send_each send_inplace (weights w nn_self) dest kwargs w of
        Inl e \<Rightarrow> Inl e
      | Inr w' \<Rightarrow> Inr (nn_self, w'))"

fun get_each :: "(nat \<Rightarrow> 'w \<Rightarrow> error + 'w) \<Rightarrow> nat list \<Rightarrow> 'w \<Rightarrow> error + 'w" where
  "get_each get_inplace [] w = Inr w"
| "get_each get_inplace (p # ps) w =
     (case get_inplace p w of
        Inl e \<Rightarrow> Inl e
      | Inr w' \<Rightarrow> get_each get_inplace ps w')"

definition module_get ::
  "(nat \<Rightarrow> 'w \<Rightarrow> error + 'w) \<Rightarrow> ('w \<Rightarrow> nat \<Rightarrow> nat list) \<Rightarrow> nat \<Rightarrow> 'w \<Rightarrow> error + (nat \<times> 'w)" where
  "module_get get_inplace weights nn_self w =
     (case get_each get_inplace (weights w nn_self) w of
        Inl e \<Rightarrow> Inl e
      | Inr w' \<Rightarrow> Inr (nn_self, w'))"

section \<open>\<^verbatim>\<open>TensorFlowHook.__init__\<close>\<close>

definition already_hooked_warning :: string where
  "already_hooked_warning = ''TF was already hooked... skipping hooking process''"

text \<open>
  \<^verbatim>\<open>syft.tensorflow.hook = self\<close>: \<^verbatim>\<open>syft.framework\<close> is the same object, so both see it.
\<close>

definition set_attrs_hook :: "nat \<Rightarrow> state \<Rightarrow> state" where
  "set_attrs_hook self s =
     s\<lparr>syft_tensorflow := map_option (\<lambda>a. a\<lparr>attrs_hook := self\<rparr>) (syft_tensorflow s),
       syft_framework := map_option (\<lambda>a. a\<lparr>attrs_hook := self\<rparr>) (syft_framework s)\<rparr>"

text \<open>Lines 21 to 29: everything \<^verbatim>\<open>__init__\<close> does before it looks at the marker.\<close>

definition init_prologue :: "collaborators \<Rightarrow> nat \<Rightarrow> nat \<Rightarrow> nat option \<Rightarrow> state \<Rightarrow> state" where
  "init_prologue ext self tf lw s =
     (let s1 = s\<lparr>hooks := (hooks s)
                  (self := \<lparr>tensorflow = tf, framework = tf, local_worker = lw,
                            to_auto_overload = None, args_hook_for_overloaded_attr = None\<rparr>)\<rparr>;
          s2 = s1\<lparr>modules := (modules s1)(tf := setattr (modules s1 tf) ''hook'' (HookRef self))\<rparr>;
          s3 = s2\<lparr>syft_tensorflow := Some (TensorFlowAttributes ext tf self)\<rparr>;
          s4 = s3\<lparr>syft_framework := syft_tensorflow s3\<rparr>
      in set_attrs_hook self s4)"

text \<open>Lines 38 to 49: the hook's local worker.\<close>

definition init_local_worker :: "nat \<Rightarrow> bool \<Rightarrow> state \<Rightarrow> state" where
  "init_local_worker self is_client s =
     (case local_worker (hooks s self) of
        None \<Rightarrow>
          (let (w, s') = VirtualWorker self is_client ''me'' s
           in s'\<lparr>hooks := (hooks s')(self := (hooks s' self)\<lparr>local_worker := Some w\<rparr>)\<rparr>)
      | Some w \<Rightarrow> s\<lparr>workers := (workers s)(w := (workers s w)\<lparr>worker_hook := Some self\<rparr>)\<rparr>)"

definition TensorFlowHook_init ::
  "collaborators \<Rightarrow> nat \<Rightarrow> nat \<Rightarrow> nat option \<Rightarrow> bool \<Rightarrow> state \<Rightarrow> error + state" where
  "TensorFlowHook_init ext self tf lw is_client s =
     (let s5 = init_prologue ext self tf lw s in
      if hasattr (modules s5 tf) ''tf_hooked'' then
        Inr (s5\<lparr>log := log s5 @ [already_hooked_warning],
                hooks := (hooks s5)(self := (hooks s5 self)\<lparr>local_worker := syft_local_worker s5\<rparr>)\<rparr>)
      else
        (let s6 = s5\<lparr>modules := (modules s5)
                      (tf := setattr (modules s5 tf) ''tf_hooked'' (PyBool True))\<rparr>;
             s7 = init_local_worker self is_client s6;
             s8 = s7\<lparr>hooks := (hooks s7)
                      (self := (hooks s7 self)\<lparr>to_auto_overload := Some [],
                                               args_hook_for_overloaded_attr := Some []\<rparr>)\<rparr>
         in case hook_native_tensor self Tensor TensorFlowTensor s8 of
              Inl e \<Rightarrow> Inl e
            | Inr s9 \<Rightarrow>
                (case hook_tensorflow_module ext s9 of
                   Inl e \<Rightarrow> Inl e
                 | Inr s10 \<Rightarrow>
                     (case hook_keras_module self s10 of
                        Inl e \<Rightarrow> Inl e
                      | Inr s11 \<Rightarrow>
                          Inr (s11\<lparr>syft_local_worker := local_worker (hooks s11 self),
                                   syft_hook := Some self\<rparr>)))))"

section \<open>Tensors, pointers and workers\<close>

text \<open>
  Modelled from the spec: the tensor methods \<^verbatim>\<open>send\<close>, \<^verbatim>\<open>get\<close> and the arithmetic on
  pointers live in \<^verbatim>\<open>syft_tensorflow/tensor.py\<close> and in the worker classes, none of them
  among the sources. This section follows the spec's data model (section 3), its
  dispatch contract (4.2) and the Worker capability (section 6): a tensor has an id,
  an owner, the flag \<open>is_wrapper\<close> and a child that is local payload or a pointer
  \<open>(location, id_at_location, owner)\<close>; a worker offers \<open>register\<close>, \<open>execute\<close> and
  \<open>retrieve\<close>. The payload type \<open>'p\<close> and the numeric kernels are the host
  framework's: parameters.
\<close>

record pointer =
  location :: nat
  id_at_location :: nat
  pointer_owner :: nat

datatype 'p child = Local 'p | Remote pointer

record 'p tensor =
  tensor_id :: nat
  tensor_owner :: nat
  is_wrapper :: bool
  child :: "'p child"

record 'p worker =
  objects :: "nat \<rightharpoonup> 'p"
  next_object_id :: nat

record 'p command =
  operation :: string
  operand_ids :: "nat list"
  command_kwargs :: "(string \<times> 'p) list"

text \<open>
  \<open>reachable\<close> maps a worker reference to the worker, when it can be reached;
  \<open>id_provider\<close> is the process-wide source of tensor ids; \<open>tensors\<close> holds the
  tensor objects that other objects (a module's weights) refer to.
\<close>

record 'p world =
  reachable :: "nat \<rightharpoonup> 'p worker"
  id_provider :: nat
  tensors :: "nat \<Rightarrow> 'p tensor"

type_synonym 'p kernel = "string \<Rightarrow> 'p list \<Rightarrow> (string \<times> 'p) list \<Rightarrow> 'p"

text \<open>Modelled from the spec: the Worker capability \<^verbatim>\<open>register(object) -> id\<close>.\<close>

definition register :: "'p worker \<Rightarrow> 'p \<Rightarrow> nat \<times> 'p worker" where
  "register wk obj =
     (let i = next_object_id wk
      in (i, wk\<lparr>objects := (objects wk)(i \<mapsto> obj), next_object_id := Suc i\<rparr>))"

text \<open>Modelled from the spec: the Worker capability \<^verbatim>\<open>retrieve(id) -> payload\<close>.\<close>

definition retrieve :: "'p worker \<Rightarrow> nat \<Rightarrow> error + 'p" where
  "retrieve wk i = (case objects wk i of None \<Rightarrow> Inl UnresolvedPointerError | Some obj \<Rightarrow> Inr obj)"

fun retrieve_all :: "'p worker \<Rightarrow> nat list \<Rightarrow> error + 'p list" where
  "retrieve_all wk [] = Inr []"
| "retrieve_all wk (i # rest) =
     (case retrieve wk i of
        Inl e \<Rightarrow> Inl e
      | Inr obj \<Rightarrow>
          (case retrieve_all wk rest of
             Inl e \<Rightarrow> Inl e
           | Inr objs \<Rightarrow> Inr (obj # objs)))"

text \<open>
  Modelled from the spec: the Worker capability \<^verbatim>\<open>execute(command) -> id\<close>. The worker
  resolves the operands, runs the host framework's kernel and registers the result.
\<close>

definition execute :: "'p kernel \<Rightarrow> 'p worker \<Rightarrow> 'p command \<Rightarrow> error + (nat \<times> 'p worker)" where
  "execute kern wk cmd =
     (case retrieve_all wk (operand_ids cmd) of
        Inl e \<Rightarrow> Inl e
      | Inr args \<Rightarrow> Inr (register wk (kern (operation cmd) args (command_kwargs cmd))))"

text \<open>
  Modelled from the spec: \<^verbatim>\<open>send(destination)\<close> moves the local payload to the
  destination, replaces the child with a pointer to the remote copy (owned by the
  original owner) and returns the tensor itself. The spec leaves sending a tensor
  that holds no local payload undefined; the model refuses it.
\<close>

definition send :: "'p tensor \<Rightarrow> nat \<Rightarrow> 'p world \<Rightarrow> error + ('p tensor \<times> 'p world)" where
  "send self destination W =
     (case child self of
        Remote ptr \<Rightarrow> Inl LocationMismatchError
      | Local payload \<Rightarrow>
          (case reachable W destination of
             None \<Rightarrow> Inl UnresolvedPointerError
           | Some wk \<Rightarrow>
               (let (i, wk') = register wk payload
                in Inr (self\<lparr>is_wrapper := True,
                              child := Remote \<lparr>location = destination, id_at_location = i,
                                               pointer_owner = tensor_owner self\<rparr>\<rparr>,
                        W\<lparr>reachable := (reachable W)(destination \<mapsto> wk')\<rparr>))))"

text \<open>
  Modelled from the spec: \<^verbatim>\<open>get()\<close> asks the remote worker for the payload, replaces
  the pointer child with it and returns the tensor itself.
\<close>

definition get :: "'p tensor \<Rightarrow> 'p world \<Rightarrow> error + ('p tensor \<times> 'p world)" where
  "get self W =
     (case child self of
        Local payload \<Rightarrow> Inl LocationMismatchError
      | Remote ptr \<Rightarrow>
          (case reachable W (location ptr) of
             None \<Rightarrow> Inl UnresolvedPointerError
           | Some wk \<Rightarrow>
               (case retrieve wk (id_at_location ptr) of
                  Inl e \<Rightarrow> Inl e
                | Inr payload \<Rightarrow> Inr (self\<lparr>is_wrapper := False, child := Local payload\<rparr>, W))))"

text \<open>
  Modelled from the spec: a binary operator. On local payloads the kernel runs here
  and the result gets a fresh identity and the operand's owner; on two pointers to
  one location the command is executed there and the returned id is wrapped in a
  new pointer with the caller's owner; any other mix is a location mismatch.
\<close>

definition binary_op ::
  "'p kernel \<Rightarrow> string \<Rightarrow> 'p tensor \<Rightarrow> 'p tensor \<Rightarrow> 'p world \<Rightarrow> error + ('p tensor \<times> 'p world)" where
  "binary_op kern name a b W =
     (case (child a, child b) of
        (Local x, Local y) \<Rightarrow>
          Inr (\<lparr>tensor_id = id_provider W, tensor_owner = tensor_owner a, is_wrapper = False,
                child = Local (kern name [x, y] [])\<rparr>,
               W\<lparr>id_provider := Suc (id_provider W)\<rparr>)
      | (Remote p, Remote q) \<Rightarrow>
          (if location p \<noteq> location q then Inl LocationMismatchError
           else (case reachable W (location p) of
                   None \<Rightarrow> Inl UnresolvedPointerError
                 | Some wk \<Rightarrow>
                     (case execute kern wk
                             \<lparr>operation = name,
                              operand_ids = [id_at_location p, id_at_location q],
                              command_kwargs = []\<rparr> of
                        Inl e \<Rightarrow> Inl e
                      | Inr (i, wk') \<Rightarrow>
                          Inr (\<lparr>tensor_id = id_provider W, tensor_owner = tensor_owner a,
                                is_wrapper = True,
                                child = Remote \<lparr>location = location p, id_at_location = i,
                                                 pointer_owner = pointer_owner p\<rparr>\<rparr>,
                               W\<lparr>reachable := (reachable W)(location p \<mapsto> wk'),
                                 id_provider := Suc (id_provider W)\<rparr>))))
      | _ \<Rightarrow> Inl LocationMismatchError)"

text \<open>Modelled from the spec: the operator \<^verbatim>\<open>a + b\<close> is the binary operator \<^verbatim>\<open>__add__\<close>.\<close>

definition add :: "'p kernel \<Rightarrow> 'p tensor \<Rightarrow> 'p tensor \<Rightarrow> 'p world \<Rightarrow> error + ('p tensor \<times> 'p world)" where
  "add kern a b W = binary_op kern ''__add__'' a b W"

text \<open>
  Modelled from the spec: the in-place variants on a tensor object of the store,
  \<^verbatim>\<open>p.send_(dest)\<close> and \<^verbatim>\<open>p.get_()\<close>; they do to the object what \<^verbatim>\<open>send\<close> and \<^verbatim>\<open>get\<close> do.
\<close>

definition send_inplace :: "nat \<Rightarrow> nat \<Rightarrow> unit \<Rightarrow> 'p world \<Rightarrow> error + 'p world" where
  "send_inplace p destination kwargs W =
     (case send (tensors W p) destination W of
        Inl e \<Rightarrow> Inl e
      | Inr (t, W') \<Rightarrow> Inr (W'\<lparr>tensors := (tensors W')(p := t)\<rparr>))"

definition get_inplace :: "nat \<Rightarrow> 'p world \<Rightarrow> error + 'p world" where
  "get_inplace p W =
     (case get (tensors W p) W of
        Inl e \<Rightarrow> Inl e
      | Inr (t, W') \<Rightarrow> Inr (W'\<lparr>tensors := (tensors W')(p := t)\<rparr>))"

text \<open>
  What a tensor object of the store holds: local payload \<open>v\<close>, or a pointer to a live
  remote copy of \<open>v\<close> at the worker \<open>d\<close>.
\<close>

definition holds_local :: "'p world \<Rightarrow> nat \<Rightarrow> 'p \<Rightarrow> bool" where
  "holds_local W p v = (child (tensors W p) = Local v \<and> \<not> is_wrapper (tensors W p))"

definition holds_pointer :: "'p world \<Rightarrow> nat \<Rightarrow> nat \<Rightarrow> 'p \<Rightarrow> bool" where
  "holds_pointer W p d v =
     (case child (tensors W p) of
        Local x \<Rightarrow> False
      | Remote ptr \<Rightarrow>
          location ptr = d \<and>
          (case reachable W d of
             None \<Rightarrow> False
           | Some wk \<Rightarrow> objects wk (id_at_location ptr) = Some v
                        \<and> id_at_location ptr < next_object_id wk))"

text \<open>
  The contract \<^verbatim>\<open>module_send_\<close> and \<^verbatim>\<open>module_get_\<close> need of the tensor methods they call,
  for the destination and keyword arguments of the call and in every state that is
  \<open>ok\<close> (the destination can be reached): \<^verbatim>\<open>send_\<close> turns local payload into a pointer
  to the destination, \<^verbatim>\<open>get_\<close> turns such a pointer back into its payload, and both
  leave what the other tensors hold, and the module's list of weights, as they are.
\<close>

definition tensor_contract ::
  "(nat \<Rightarrow> 'd \<Rightarrow> 'k \<Rightarrow> 'w \<Rightarrow> error + 'w) \<Rightarrow> (nat \<Rightarrow> 'w \<Rightarrow> error + 'w) \<Rightarrow> ('w \<Rightarrow> nat \<Rightarrow> nat list)
   \<Rightarrow> ('w \<Rightarrow> bool) \<Rightarrow> ('w \<Rightarrow> nat \<Rightarrow> 'v \<Rightarrow> bool) \<Rightarrow> ('w \<Rightarrow> nat \<Rightarrow> 'v \<Rightarrow> bool) \<Rightarrow> 'd \<Rightarrow> 'k \<Rightarrow> bool" where
  "tensor_contract send_op get_op weights ok is_local is_pointer dest kwargs =
     ((\<forall>p w v. ok w \<and> is_local w p v \<longrightarrow>
         (\<exists>w'. send_op p dest kwargs w = Inr w' \<and> ok w' \<and> is_pointer w' p v
            \<and> weights w' = weights w
            \<and> (\<forall>q u. q \<noteq> p \<and> is_local w q u \<longrightarrow> is_local w' q u)
            \<and> (\<forall>q u. q \<noteq> p \<and> is_pointer w q u \<longrightarrow> is_pointer w' q u)))
      \<and> (\<forall>p w v. ok w \<and> is_pointer w p v \<longrightarrow>
         (\<exists>w'. get_op p w = Inr w' \<and> ok w' \<and> is_local w' p v
            \<and> weights w' = weights w
            \<and> (\<forall>q u. q \<noteq> p \<and> is_local w q u \<longrightarrow> is_local w' q u)
            \<and> (\<forall>q u. q \<noteq> p \<and> is_pointer w q u \<longrightarrow> is_pointer w' q u))))"

section \<open>Auxiliary predicates\<close>

text \<open>
  A list of names is clash-free when no installed name is the alias of another; an
  overloader keeps attributes when it never deletes one.
\<close>

definition clash_free :: "string list \<Rightarrow> bool" where
  "clash_free xs = (\<forall>a \<in> set xs. \<forall>b \<in> set xs.
        a \<notin> set exclude \<and> b \<notin> set exclude \<longrightarrow> a \<noteq> native_name b)"

definition keeps_attributes :: "overloader \<Rightarrow> bool" where
  "keeps_attributes perform =
     (\<forall>m func m' a. perform m func = Inr m' \<and> hasattr m a \<longrightarrow> hasattr m' a)"

text \<open>The destination of a send can be reached.\<close>

definition can_reach :: "nat \<Rightarrow> 'p world \<Rightarrow> bool" where
  "can_reach d W = (reachable W d \<noteq> None)"

section \<open>Concrete inputs\<close>

text \<open>
  A framework namespace with a function, a class, a dunder name, a private name, an
  excluded function, a function that is overloaded already, and a function whose
  name happens to contain \<open>native_\<close>.
\<close>

definition example_module :: "pyval namespace" where
  "example_module =
     [(''add'', Native ''tf.add''), (''Tensor'', ClassRef 0), (''__name__'', Native ''tensorflow''),
      (''_api'', Native ''tf._api''), (''constant'', Native ''tf.constant''),
      (''multiply'', Overloaded (Native ''tf.multiply'')),
      (''native_multiply'', Native ''tf.multiply''),
      (''alternative_fn'', Native ''tf.alternative_fn'')]"

text \<open>
  A process before any hook: the tensor class, the syft tensor class, the framework
  module \<open>0\<close> with its class \<^verbatim>\<open>Module\<close> (class \<open>2\<close>) and its submodule \<^verbatim>\<open>math\<close> (module
  \<open>3\<close>), which is the one configured namespace.
\<close>

definition example_Tensor :: "pyval namespace" where
  "example_Tensor =
     [(''__init__'', Native ''Tensor.__init__''), (''__add__'', Native ''Tensor.__add__''),
      (''__repr__'', Native ''Tensor.__repr__''), (''shape'', Native ''Tensor.shape'')]"

definition example_TensorFlowTensor :: "pyval namespace" where
  "example_TensorFlowTensor =
     [(''__init__'', Native ''TensorFlowTensor.__init__''),
      (''__add__'', Native ''TensorFlowTensor.__add__''),
      (''get'', Native ''TensorFlowTensor.get''),
      (''send'', Native ''TensorFlowTensor.send''),
      (''shape'', Native ''TensorFlowTensor.shape'')]"

definition example_tensorflow :: "pyval namespace" where
  "example_tensorflow =
     [(''Module'', ClassRef 2), (''Tensor'', ClassRef 0), (''__name__'', Native ''tensorflow''),
      (''math'', ModuleRef 3)]"

definition example_math :: "pyval namespace" where
  "example_math =
     [(''add'', Native ''tf.math.add''), (''__name__'', Native ''tensorflow.math''),
      (''is_tensor'', Native ''tf.math.is_tensor'')]"

definition example_ext :: collaborators where
  "example_ext =
     \<lparr>perform_overloading = perform_function_overloading,
      configured_modules = (\<lambda>tf. [(''tensorflow.math'', 3)]),
      configured_exclude = [''is_tensor'']\<rparr>"

definition example_state :: state where
  "example_state =
     \<lparr>modules = (\<lambda>_. [])(0 := example_tensorflow, 3 := example_math),
      classes = (\<lambda>_. [])(0 := example_Tensor, Suc 0 := example_TensorFlowTensor),
      hooks = (\<lambda>_. \<lparr>tensorflow = 0, framework = 0, local_worker = None,
                      to_auto_overload = None, args_hook_for_overloaded_attr = None\<rparr>),
      workers = (\<lambda>_. \<lparr>worker_id = [], worker_hook = None, is_client_worker = False\<rparr>),
      next_worker = 0,
      syft_tensorflow = None, syft_framework = None, syft_local_worker = None,
      syft_hook = None, log = []\<rparr>"

text \<open>
  A hook whose local worker is worker \<open>0\<close>; a tensor instance that records the calls
  of its native constructor; the scalar \<open>2.0\<close>, vectors, a world with one reachable
  worker (\<open>7\<close>), a kernel that adds vectors pointwise, and a world that holds the
  weights of a module.
\<close>

record traced_inst = tensor_inst +
  native_calls :: "(pyval \<times> nat list \<times> (string \<times> nat) list) list"

definition example_call ::
  "pyval \<Rightarrow> traced_inst \<Rightarrow> nat list \<Rightarrow> (string \<times> nat) list \<Rightarrow> traced_inst" where
  "example_call ctor inst args kwargs =
     inst\<lparr>native_calls := native_calls inst @ [(ctor, args, kwargs)]\<rparr>"

definition example_inst :: traced_inst where
  "example_inst =
     \<lparr>syft_id = None, owner_attr = None, is_wrapper_attr = None, native_calls = []\<rparr>"

definition example_state_with_worker :: state where
  "example_state_with_worker =
     example_state\<lparr>hooks := (hooks example_state)
       (0 := (hooks example_state 0)\<lparr>local_worker := Some 0\<rparr>)\<rparr>"

definition example_scalar :: "real tensor" where
  "example_scalar = \<lparr>tensor_id = 11, tensor_owner = 0, is_wrapper = False, child = Local 2\<rparr>"

definition example_vector :: "nat \<Rightarrow> real list \<Rightarrow> real list tensor" where
  "example_vector i xs = \<lparr>tensor_id = i, tensor_owner = 0, is_wrapper = False, child = Local xs\<rparr>"

definition example_world :: "'p tensor \<Rightarrow> 'p world" where
  "example_world t =
     \<lparr>reachable = [7 \<mapsto> \<lparr>objects = Map.empty, next_object_id = 0\<rparr>],
      id_provider = 100, tensors = (\<lambda>_. t)\<rparr>"

definition example_kernel :: "real list kernel" where
  "example_kernel name args kwargs =
     (case args of [u, v] \<Rightarrow> (if name = ''__add__'' then map2 (+) u v else []) | _ \<Rightarrow> [])"

definition example_weights :: "real list world" where
  "example_weights =
     \<lparr>reachable = [7 \<mapsto> \<lparr>objects = Map.empty, next_object_id = 0\<rparr>],
      id_provider = 100,
      tensors = (\<lambda>i. \<lparr>tensor_id = i, tensor_owner = 0, is_wrapper = False,
                       child = Local [real i, 1]\<rparr>)\<rparr>"

text \<open>
  A namespace of three functions: one with a double underscore inside its name,
  one whose name happens to contain \<open>native_\<close>, and one named like an alias.
\<close>

definition example_skipped :: "pyval namespace" where
  "example_skipped =
     [(''a__b'', Native ''tf.a__b''), (''alternative_fn'', Native ''tf.alternative_fn''),
      (''native_fn'', Native ''tf.native_fn'')]"

section \<open>Attribute tables\<close>

lemma map_of_setattr: "map_of (setattr m a v) = (map_of m)(a \<mapsto> v)"
  by (simp add: setattr_def update_conv')

lemma hasattr_setattr: "hasattr (setattr m a v) b = (b = a \<or> hasattr m b)"
  by (simp add: hasattr_def map_of_setattr)

lemma set_dir: "set (dir m) = fst ` set m"
  by (simp add: dir_def)

lemma hasattr_dir: "hasattr m a = (a \<in> set (dir m))"
  by (simp add: hasattr_def set_dir map_of_eq_None_iff)

lemma distinct_dir: "distinct (dir m)"
  by (simp add: dir_def)

lemma native_name_neq: "native_name a \<noteq> a"
proof
  assume "native_name a = a"
  then have "length (native_name a) = length a" by simp
  then show False by (simp add: native_name_def)
qed

lemma native_name_inj: "native_name a = native_name b \<longleftrightarrow> a = b"
  by (simp add: native_name_def)

section \<open>The identity properties\<close>





section \<open>The rewritten \<^verbatim>\<open>__module__\<close>\<close>

text \<open>
  Claim C9. At a function that carries only \<^verbatim>\<open>_keras_api_names\<close> and whose first name
  has no submodule component, the source sets \<^verbatim>\<open>__module__\<close> to \<open>tensorflow.\<close> with
  a trailing dot: the keras block has no fallback to the framework root. The block
  for \<^verbatim>\<open>_tf_api_names\<close> has it, and gives \<open>tensorflow\<close> for such a name.
\<close>

theorem get_hooked_func_keras_no_fallback:
  "fn_module (fst (get_hooked_func super_get_hooked_func
      \<lparr>tf_api_names = None, keras_api_names = Some [''Model''], fn_module = ''keras.engine''\<rparr>))
     = ''tensorflow.''
   \<and> fn_module (fst (get_hooked_func super_get_hooked_func
      \<lparr>tf_api_names = Some [''constant''], keras_api_names = None, fn_module = ''ops''\<rparr>))
     = ''tensorflow''"
  by (simp add: get_hooked_func_def rewrite_tf_def rewrite_keras_def submodule_of_def)

section \<open>The walk over a framework namespace\<close>

lemma hook_func_overloadable:
  "func \<noteq> [] \<Longrightarrow>
   hook_func perform excl m func = (if overloadable excl m func then perform m func else Inr m)"
  by (cases func) (auto simp: hook_func_def overloadable_def hasattr_dir)

lemma overloadable_cong:
  "hasattr m' (native_name func) = hasattr m (native_name func)
   \<Longrightarrow> overloadable excl m' func = overloadable excl m func"
  by (simp add: overloadable_def)

lemma str_contains_prefix: "take (length p) s = p \<Longrightarrow> str_contains p s"
  by (cases s) auto

lemma skipped_by_design_not_overloadable:
  assumes "skipped_by_design excl m func"
  shows "\<not> overloadable excl m func"
proof -
  have "str_contains ''__'' func" if "is_dunder func"
    using that by (intro str_contains_prefix) (simp add: is_dunder_def eval_nat_numeral)
  moreover have "str_contains ''native_'' func" if "take 7 func = ''native_''"
    using that by (intro str_contains_prefix) (simp add: eval_nat_numeral)
  ultimately show ?thesis
    using assms by (auto simp: skipped_by_design_def overloadable_def)
qed

lemma hook_funcs_effect:
  assumes r: "replaces_symbol perform wrap"
  shows "distinct names \<Longrightarrow> [] \<notin> set names \<Longrightarrow> set names \<subseteq> set (dir m)
    \<Longrightarrow> \<forall>g \<in> set names. map_of cur g = map_of m g
    \<Longrightarrow> \<forall>g \<in> set names. hasattr cur (native_name g) = hasattr m (native_name g)
    \<Longrightarrow> \<exists>m'. hook_funcs perform excl cur names = Inr m'
          \<and> (\<forall>g \<in> set names. overloadable excl m g \<longrightarrow>
                map_of m' g = map_option wrap (map_of m g)
                \<and> map_of m' (native_name g) = map_of m g)
          \<and> (\<forall>g \<in> set names. \<not> overloadable excl m g \<longrightarrow> map_of m' g = map_of m g)
          \<and> (\<forall>k. k \<notin> set names
                \<and> (\<forall>g \<in> set names. overloadable excl m g \<longrightarrow> k \<noteq> native_name g)
                \<longrightarrow> map_of m' k = map_of cur k)"
proof (induction names arbitrary: cur)
  case Nil
  then show ?case by simp
next
  case (Cons f rest)
  have f: "f \<noteq> []" and fm: "hasattr m f" and nf: "f \<notin> set rest"
    using Cons.prems by (auto simp: hasattr_dir)
  have ov: "overloadable excl cur f = overloadable excl m f"
    using Cons.prems by (intro overloadable_cong) simp
  have rest_in: "\<And>g. g \<in> set rest \<Longrightarrow> hasattr m g"
    using Cons.prems by (auto simp: hasattr_dir)
  have not_alias: "\<And>g k. overloadable excl m g \<Longrightarrow> hasattr m k \<Longrightarrow> k \<noteq> native_name g"
    by (auto simp: overloadable_def)
  show ?case
  proof (cases "overloadable excl m f")
    case False
    have step: "hook_func perform excl cur f = Inr cur"
      using False f ov by (simp add: hook_func_overloadable)
    from Cons.IH [of cur] Cons.prems obtain m' where
      run: "hook_funcs perform excl cur rest = Inr m'"
      and a: "\<forall>g \<in> set rest. overloadable excl m g \<longrightarrow>
                map_of m' g = map_option wrap (map_of m g)
                \<and> map_of m' (native_name g) = map_of m g"
      and b: "\<forall>g \<in> set rest. \<not> overloadable excl m g \<longrightarrow> map_of m' g = map_of m g"
      and c: "\<forall>k. k \<notin> set rest
                \<and> (\<forall>g \<in> set rest. overloadable excl m g \<longrightarrow> k \<noteq> native_name g)
                \<longrightarrow> map_of m' k = map_of cur k"
      by auto
    have "map_of m' f = map_of cur f"
      using c nf not_alias fm by blast
    then have ff: "map_of m' f = map_of m f"
      using Cons.prems by simp
    show ?thesis
    proof (intro exI [of _ m'] conjI)
      show "hook_funcs perform excl cur (f # rest) = Inr m'"
        using run step by simp
      show "\<forall>g \<in> set (f # rest). overloadable excl m g \<longrightarrow>
                map_of m' g = map_option wrap (map_of m g)
                \<and> map_of m' (native_name g) = map_of m g"
        using a False by simp
      show "\<forall>g \<in> set (f # rest). \<not> overloadable excl m g \<longrightarrow> map_of m' g = map_of m g"
        using b ff by simp
      show "\<forall>k. k \<notin> set (f # rest)
                \<and> (\<forall>g \<in> set (f # rest). overloadable excl m g \<longrightarrow> k \<noteq> native_name g)
                \<longrightarrow> map_of m' k = map_of cur k"
      proof (intro allI impI)
        fix k
        assume "k \<notin> set (f # rest)
                \<and> (\<forall>g \<in> set (f # rest). overloadable excl m g \<longrightarrow> k \<noteq> native_name g)"
        then have "k \<notin> set rest"
          and "\<forall>g \<in> set rest. overloadable excl m g \<longrightarrow> k \<noteq> native_name g"
          by simp_all
        with c show "map_of m' k = map_of cur k" by blast
      qed
    qed
  next
    case True
    from fm obtain v where v: "map_of m f = Some v"
      by (auto simp: hasattr_def)
    then have cv: "map_of cur f = Some v"
      using Cons.prems by simp
    from r cv obtain m1 where m1: "perform cur f = Inr m1"
      and mp: "map_of m1 = (map_of cur)(native_name f \<mapsto> v, f \<mapsto> wrap v)"
      unfolding replaces_symbol_def by blast
    have step: "hook_func perform excl cur f = Inr m1"
      using True f ov m1 by (simp add: hook_func_overloadable)
    have nat_f: "\<not> hasattr m (native_name f)"
      using True by (simp add: overloadable_def)
    have i1: "\<forall>g \<in> set rest. map_of m1 g = map_of m g"
    proof
      fix g assume g: "g \<in> set rest"
      then have "g \<noteq> f" using nf by auto
      moreover have "g \<noteq> native_name f" using rest_in [OF g] nat_f by auto
      ultimately show "map_of m1 g = map_of m g"
        using mp g Cons.prems by simp
    qed
    have i2: "\<forall>g \<in> set rest. hasattr m1 (native_name g) = hasattr m (native_name g)"
    proof
      fix g assume g: "g \<in> set rest"
      then have "native_name g \<noteq> native_name f" using nf by (auto simp: native_name_inj)
      moreover have "hasattr cur (native_name g) = hasattr m (native_name g)"
        using g Cons.prems by simp
      ultimately show "hasattr m1 (native_name g) = hasattr m (native_name g)"
        using mp cv by (auto simp: hasattr_def)
    qed
    from Cons.IH [of m1] Cons.prems i1 i2 obtain m' where
      run: "hook_funcs perform excl m1 rest = Inr m'"
      and a: "\<forall>g \<in> set rest. overloadable excl m g \<longrightarrow>
                map_of m' g = map_option wrap (map_of m g)
                \<and> map_of m' (native_name g) = map_of m g"
      and b: "\<forall>g \<in> set rest. \<not> overloadable excl m g \<longrightarrow> map_of m' g = map_of m g"
      and c: "\<forall>k. k \<notin> set rest
                \<and> (\<forall>g \<in> set rest. overloadable excl m g \<longrightarrow> k \<noteq> native_name g)
                \<longrightarrow> map_of m' k = map_of m1 k"
      by auto
    have "map_of m' f = map_of m1 f"
      using c nf not_alias fm by blast
    then have ff: "map_of m' f = map_option wrap (map_of m f)"
      using mp v by simp
    have "native_name f \<notin> set rest"
      using rest_in nat_f by auto
    moreover have "\<forall>g \<in> set rest. native_name f \<noteq> native_name g"
      using nf by (auto simp: native_name_inj)
    ultimately have "map_of m' (native_name f) = map_of m1 (native_name f)"
      using c by blast
    then have fa: "map_of m' (native_name f) = map_of m f"
      using mp v native_name_neq [of f] by simp
    have fr: "map_of m' k = map_of cur k"
      if "k \<notin> set (f # rest)"
        and "\<forall>g \<in> set (f # rest). overloadable excl m g \<longrightarrow> k \<noteq> native_name g" for k
    proof -
      have "map_of m' k = map_of m1 k" using c that by simp
      moreover have "k \<noteq> f" "k \<noteq> native_name f" using that True by auto
      ultimately show ?thesis using mp by simp
    qed
    show ?thesis
    proof (intro exI [of _ m'] conjI)
      show "hook_funcs perform excl cur (f # rest) = Inr m'"
        using run step by simp
      show "\<forall>g \<in> set (f # rest). overloadable excl m g \<longrightarrow>
                map_of m' g = map_option wrap (map_of m g)
                \<and> map_of m' (native_name g) = map_of m g"
        using a ff fa by simp
      show "\<forall>g \<in> set (f # rest). \<not> overloadable excl m g \<longrightarrow> map_of m' g = map_of m g"
        using b True by simp
      show "\<forall>k. k \<notin> set (f # rest)
                \<and> (\<forall>g \<in> set (f # rest). overloadable excl m g \<longrightarrow> k \<noteq> native_name g)
                \<longrightarrow> map_of m' k = map_of cur k"
        using fr by blast
    qed
  qed
qed

lemma Overloaded_neq: "Overloaded v \<noteq> v"
  by (induction v) simp_all

lemma perform_replaces: "replaces_symbol perform_function_overloading Overloaded"
  unfolding replaces_symbol_def
proof (intro conjI allI impI)
  fix v show "Overloaded v \<noteq> v" by (rule Overloaded_neq)
next
  fix m :: "pyval namespace" and func v
  assume "map_of m func = Some v"
  then show "\<exists>m'. perform_function_overloading m func = Inr m'
      \<and> map_of m' = (map_of m)(native_name func \<mapsto> v, func \<mapsto> Overloaded v)"
    by (simp add: perform_function_overloading_def getattr_def map_of_setattr)
qed

text \<open>
  Claim C7, as amended. Let the overloader keep its contract and the names of the
  namespace be non-empty. The walk returns, and of the names of the namespace it
  has replaced exactly those that are not in the exclusion set, contain no \<open>__\<close>,
  start with neither an uppercase letter nor an underscore, do not contain
  \<open>native_\<close>, and have no \<open>native_<name>\<close> alias in the namespace: each of them now
  holds the wrapped version, with the original under its alias. Every other name
  holds what it held, so in particular every name that is excluded, a dunder name,
  starts with an uppercase letter or an underscore, is itself an alias, or has its
  alias present; and the only names the walk adds are the aliases of the names it
  replaced.
\<close>

theorem hook_module_overloads_exactly:
  assumes "replaces_symbol perform wrap" and "[] \<notin> set (dir m)"
  shows "\<exists>m'. hook_module perform excl m = Inr m'
     \<and> (\<forall>func \<in> set (dir m).
          (overloadable excl m func \<longrightarrow>
             map_of m' func = map_option wrap (map_of m func)
             \<and> map_of m' func \<noteq> map_of m func
             \<and> map_of m' (native_name func) = map_of m func)
          \<and> (\<not> overloadable excl m func \<longrightarrow> map_of m' func = map_of m func)
          \<and> (skipped_by_design excl m func \<longrightarrow> map_of m' func = map_of m func))
     \<and> (\<forall>k. k \<notin> set (dir m)
            \<and> (\<forall>func \<in> set (dir m). overloadable excl m func \<longrightarrow> k \<noteq> native_name func)
            \<longrightarrow> map_of m' k = None)"
proof -
  from hook_funcs_effect [OF assms(1) distinct_dir assms(2), of m m excl]
  obtain m' where run: "hook_funcs perform excl m (dir m) = Inr m'"
    and a: "\<forall>g \<in> set (dir m). overloadable excl m g \<longrightarrow>
                map_of m' g = map_option wrap (map_of m g)
                \<and> map_of m' (native_name g) = map_of m g"
    and b: "\<forall>g \<in> set (dir m). \<not> overloadable excl m g \<longrightarrow> map_of m' g = map_of m g"
    and c: "\<forall>k. k \<notin> set (dir m)
                \<and> (\<forall>g \<in> set (dir m). overloadable excl m g \<longrightarrow> k \<noteq> native_name g)
                \<longrightarrow> map_of m' k = map_of m k"
    by auto
  have w: "\<And>v. wrap v \<noteq> v"
    using assms(1) by (simp add: replaces_symbol_def)
  have changed: "map_of m' g \<noteq> map_of m g"
    if "g \<in> set (dir m)" and "overloadable excl m g" for g
  proof -
    from that(1) obtain v where "map_of m g = Some v"
      by (auto simp: hasattr_dir [symmetric] hasattr_def)
    with a that w show ?thesis by auto
  qed
  have none: "map_of m k = None" if "k \<notin> set (dir m)" for k
    using that by (simp add: hasattr_dir [symmetric] hasattr_def)
  show ?thesis
  proof (intro exI [of _ m'] conjI ballI allI impI)
    show "hook_module perform excl m = Inr m'"
      using run by (simp add: hook_module_def)
  next
    fix func assume "func \<in> set (dir m)" and "overloadable excl m func"
    with a show "map_of m' func = map_option wrap (map_of m func)" by blast
  next
    fix func assume "func \<in> set (dir m)" and "overloadable excl m func"
    then show "map_of m' func \<noteq> map_of m func" by (rule changed)
  next
    fix func assume "func \<in> set (dir m)" and "overloadable excl m func"
    with a show "map_of m' (native_name func) = map_of m func" by blast
  next
    fix func assume "func \<in> set (dir m)" and "\<not> overloadable excl m func"
    with b show "map_of m' func = map_of m func" by blast
  next
    fix func assume "func \<in> set (dir m)" and "skipped_by_design excl m func"
    with b skipped_by_design_not_overloadable show "map_of m' func = map_of m func" by blast
  next
    fix k
    assume "k \<notin> set (dir m)
            \<and> (\<forall>func \<in> set (dir m). overloadable excl m func \<longrightarrow> k \<noteq> native_name func)"
    with c none show "map_of m' k = None" by auto
  qed
qed

theorem hook_module_overloads_exactly_witness:
  "replaces_symbol perform_function_overloading Overloaded
   \<and> [] \<notin> set (dir example_module)
   \<and> overloadable [''constant''] example_module ''add''
   \<and> skipped_by_design [''constant''] example_module ''multiply''
   \<and> \<not> overloadable [''constant''] example_module ''alternative_fn''
   \<and> (\<exists>m'. hook_module perform_function_overloading [''constant''] example_module = Inr m'
         \<and> map_of m' ''add'' = Some (Overloaded (Native ''tf.add''))
         \<and> map_of m' ''native_add'' = Some (Native ''tf.add'')
         \<and> map_of m' ''multiply'' = Some (Overloaded (Native ''tf.multiply''))
         \<and> map_of m' ''alternative_fn'' = Some (Native ''tf.alternative_fn'')
         \<and> map_of m' ''native_constant'' = None)"
proof -
  have d: "dir example_module =
      [''Tensor'', ''__name__'', ''_api'', ''add'', ''alternative_fn'', ''constant'',
       ''multiply'', ''native_multiply'']"
    by (simp add: example_module_def dir_def)
  have e: "[] \<notin> set (dir example_module)"
    by (simp add: d)
  have o1: "overloadable [''constant''] example_module ''add''"
    by (simp add: overloadable_def hasattr_def example_module_def isupper_def native_name_def)
  have o2: "skipped_by_design [''constant''] example_module ''multiply''"
    by (simp add: skipped_by_design_def hasattr_def example_module_def native_name_def)
  have o3: "\<not> overloadable [''constant''] example_module ''alternative_fn''"
    by (simp add: overloadable_def)
  have o4: "\<forall>func \<in> set (dir example_module).
      overloadable [''constant''] example_module func \<longrightarrow> ''native_constant'' \<noteq> native_name func"
    by (simp add: d native_name_def overloadable_def)
  have vals: "map_of example_module ''add'' = Some (Native ''tf.add'')"
    "map_of example_module ''multiply'' = Some (Overloaded (Native ''tf.multiply''))"
    "map_of example_module ''alternative_fn'' = Some (Native ''tf.alternative_fn'')"
    by (simp_all add: example_module_def)
  have n: "native_name ''add'' = ''native_add''"
    by (simp add: native_name_def)
  have mem: "''add'' \<in> set (dir example_module)" "''multiply'' \<in> set (dir example_module)"
    "''alternative_fn'' \<in> set (dir example_module)"
    "''native_constant'' \<notin> set (dir example_module)"
    by (simp_all add: d)
  from hook_module_overloads_exactly [OF perform_replaces e, of "[''constant'']"]
  obtain m' where
    run: "hook_module perform_function_overloading [''constant''] example_module = Inr m'"
    and a: "\<forall>func \<in> set (dir example_module).
          (overloadable [''constant''] example_module func \<longrightarrow>
             map_of m' func = map_option Overloaded (map_of example_module func)
             \<and> map_of m' func \<noteq> map_of example_module func
             \<and> map_of m' (native_name func) = map_of example_module func)
          \<and> (\<not> overloadable [''constant''] example_module func \<longrightarrow>
                map_of m' func = map_of example_module func)
          \<and> (skipped_by_design [''constant''] example_module func \<longrightarrow>
                map_of m' func = map_of example_module func)"
    and c: "\<forall>k. k \<notin> set (dir example_module)
            \<and> (\<forall>func \<in> set (dir example_module).
                  overloadable [''constant''] example_module func \<longrightarrow> k \<noteq> native_name func)
            \<longrightarrow> map_of m' k = None"
    by blast
  have a1: "map_of m' ''add'' = map_option Overloaded (map_of example_module ''add'')
      \<and> map_of m' ''add'' \<noteq> map_of example_module ''add''
      \<and> map_of m' (native_name ''add'') = map_of example_module ''add''"
    using bspec [OF a mem(1)] o1 by blast
  have r1: "map_of m' ''add'' = Some (Overloaded (Native ''tf.add''))"
    "map_of m' ''native_add'' = Some (Native ''tf.add'')"
    using a1 unfolding n vals(1) by simp_all
  have "map_of m' ''multiply'' = map_of example_module ''multiply''"
    using bspec [OF a mem(2)] o2 by blast
  then have r2: "map_of m' ''multiply'' = Some (Overloaded (Native ''tf.multiply''))"
    unfolding vals(2) .
  have "map_of m' ''alternative_fn'' = map_of example_module ''alternative_fn''"
    using bspec [OF a mem(3)] o3 by blast
  then have r3: "map_of m' ''alternative_fn'' = Some (Native ''tf.alternative_fn'')"
    unfolding vals(3) .
  have r4: "map_of m' ''native_constant'' = None"
    using spec [OF c, of "''native_constant''"] mem(4) o4 by blast
  show ?thesis
    by (intro conjI exI [of _ m'] perform_replaces e o1 o2 o3 run r1 r2 r3 r4)
qed

text \<open>
  The claim as the specification words it fails: \<open>a__b\<close>, \<open>alternative_fn\<close> and
  \<open>native_fn\<close> are not excluded, are no dunder names, start with a lowercase letter
  and have no alias in the namespace, yet the walk replaces none of them and
  returns the namespace as it was: the first contains \<open>__\<close>, the others \<open>native_\<close>.
\<close>

theorem spec_overloadable_counterexample:
  "spec_overloadable [] example_skipped ''a__b''
   \<and> spec_overloadable [] example_skipped ''alternative_fn''
   \<and> spec_overloadable [] example_skipped ''native_fn''
   \<and> hook_module perform_function_overloading [] example_skipped = Inr example_skipped"
  by (simp add: hook_module_def dir_def hook_func_def spec_overloadable_def is_dunder_def
      hasattr_def isupper_def native_name_def example_skipped_def)

section \<open>Installing the syft tensor methods\<close>

lemma add_methods_loop_append:
  "add_methods_loop tft tt (xs @ ys) =
     (case add_methods_loop tft tt xs of
        Inl e \<Rightarrow> Inl e
      | Inr tt' \<Rightarrow> add_methods_loop tft tt' ys)"
  by (induction xs arbitrary: tt) (auto split: sum.splits)

lemma add_method_ok:
  assumes "a \<in> set (dir tft)"
  shows "\<exists>tt'. add_method tft tt a = Inr tt'"
proof -
  from assms obtain v where "map_of tft a = Some v"
    by (auto simp: hasattr_dir [symmetric] hasattr_def)
  then show ?thesis
    by (simp add: add_method_def getattr_def)
qed

lemma add_methods_loop_ok:
  "set xs \<subseteq> set (dir tft) \<Longrightarrow> \<exists>tt'. add_methods_loop tft tt xs = Inr tt'"
proof (induction xs arbitrary: tt)
  case Nil
  then show ?case by simp
next
  case (Cons a xs)
  then obtain t1 where "add_method tft tt a = Inr t1"
    using add_method_ok [of a tft tt] by auto
  with Cons show ?case by simp
qed

lemma add_method_copy:
  assumes "add_method tft tt a = Inr tt'" and "a \<notin> set exclude"
  shows "map_of tt' a = map_of tft a" and "map_of tft a \<noteq> None"
    and "hasattr tt a \<Longrightarrow> map_of tt' (native_name a) = map_of tt a"
  using assms native_name_neq [of a]
  by (auto simp: add_method_def getattr_def hasattr_def map_of_setattr
      split: option.splits sum.splits)

lemma add_method_frame:
  assumes "add_method tft tt a = Inr tt'"
    and "a \<notin> set exclude \<Longrightarrow> k \<noteq> a \<and> k \<noteq> native_name a"
  shows "map_of tt' k = map_of tt k"
  using assms
  by (auto simp: add_method_def getattr_def map_of_setattr split: option.splits sum.splits if_splits)

lemma add_methods_loop_frame:
  "add_methods_loop tft tt xs = Inr tt'
   \<Longrightarrow> \<forall>b \<in> set xs. b \<notin> set exclude \<longrightarrow> k \<noteq> b \<and> k \<noteq> native_name b
   \<Longrightarrow> map_of tt' k = map_of tt k"
proof (induction xs arbitrary: tt)
  case Nil
  then show ?case by simp
next
  case (Cons a xs)
  from Cons.prems(1) obtain t1 where t1: "add_method tft tt a = Inr t1"
    and rest: "add_methods_loop tft t1 xs = Inr tt'"
    by (auto split: sum.splits)
  have "map_of t1 k = map_of tt k"
    using t1 Cons.prems(2) by (intro add_method_frame [OF t1]) simp
  moreover have "map_of tt' k = map_of t1 k"
    using Cons.IH [OF rest] Cons.prems(2) by simp
  ultimately show ?case by simp
qed

lemma clash_free_Cons: "clash_free (x # xs) \<Longrightarrow> clash_free xs"
  by (simp add: clash_free_def)

lemma add_methods_loop_copy:
  "add_methods_loop tft tt xs = Inr tt' \<Longrightarrow> distinct xs \<Longrightarrow> clash_free xs
   \<Longrightarrow> a \<in> set xs \<Longrightarrow> a \<notin> set exclude \<Longrightarrow> map_of tt' a = map_of tft a"
proof (induction xs arbitrary: tt)
  case Nil
  then show ?case by simp
next
  case (Cons x xs)
  from Cons.prems(1) obtain t1 where t1: "add_method tft tt x = Inr t1"
    and rest: "add_methods_loop tft t1 xs = Inr tt'"
    by (auto split: sum.splits)
  show ?case
  proof (cases "a = x")
    case True
    have "\<forall>b \<in> set xs. b \<notin> set exclude \<longrightarrow> a \<noteq> b \<and> a \<noteq> native_name b"
      using Cons.prems True by (auto simp: clash_free_def)
    then have "map_of tt' a = map_of t1 a"
      by (rule add_methods_loop_frame [OF rest])
    with add_method_copy(1) [OF t1] True Cons.prems show ?thesis by simp
  next
    case False
    with Cons.prems have "a \<in> set xs" by simp
    with Cons.IH [OF rest] Cons.prems show ?thesis
      by (auto dest: clash_free_Cons)
  qed
qed

lemma add_methods_loop_alias:
  "add_methods_loop tft tt xs = Inr tt' \<Longrightarrow> distinct xs \<Longrightarrow> clash_free xs
   \<Longrightarrow> a \<in> set xs \<Longrightarrow> a \<notin> set exclude \<Longrightarrow> hasattr tt a
   \<Longrightarrow> map_of tt' (native_name a) = map_of tt a"
proof (induction xs arbitrary: tt)
  case Nil
  then show ?case by simp
next
  case (Cons x xs)
  from Cons.prems(1) obtain t1 where t1: "add_method tft tt x = Inr t1"
    and rest: "add_methods_loop tft t1 xs = Inr tt'"
    by (auto split: sum.splits)
  show ?case
  proof (cases "a = x")
    case True
    have "\<forall>b \<in> set xs. b \<notin> set exclude \<longrightarrow> native_name a \<noteq> b \<and> native_name a \<noteq> native_name b"
      using Cons.prems True by (auto simp: clash_free_def native_name_inj)
    then have "map_of tt' (native_name a) = map_of t1 (native_name a)"
      by (rule add_methods_loop_frame [OF rest])
    with add_method_copy(3) [OF t1] True Cons.prems show ?thesis by simp
  next
    case False
    with Cons.prems have a: "a \<in> set xs" by simp
    have "x \<notin> set exclude \<Longrightarrow> a \<noteq> x \<and> a \<noteq> native_name x"
      using False Cons.prems by (auto simp: clash_free_def)
    then have same: "map_of t1 a = map_of tt a"
      by (rule add_method_frame [OF t1])
    with Cons.prems have "hasattr t1 a" by (simp add: hasattr_def)
    with Cons.IH [OF rest] Cons.prems a same show ?thesis
      by (auto dest: clash_free_Cons)
  qed
qed

lemma getattr_eq: "map_of m a = map_of m' a \<Longrightarrow> getattr m a = getattr m' a"
  by (simp add: getattr_def)

lemma getattr_eq2: "map_of m a = map_of m' b \<Longrightarrow> map_of m' b \<noteq> None \<Longrightarrow> getattr m a = getattr m' b"
  by (auto simp add: getattr_def)

text \<open>
  Claim C4. Let \<open>attr\<close> be an attribute of the syft tensor type outside the exclusion
  list, the hook calling the routine with \<^verbatim>\<open>TensorFlowTensor\<close> as the syft type. The
  loop reaches \<open>attr\<close> without raising; its pass for \<open>attr\<close> copies the syft type's
  attribute onto the tensor type, and when the tensor type defines \<open>attr\<close> at that
  moment, what it defines is first kept under \<open>native_<attr>\<close>; the loop then
  finishes without raising. When the syft type defines no \<open>native_<name>\<close> of a name
  it installs, the same holds of the finished table against the table the routine
  started from.
\<close>

theorem add_methods_copies_and_aliases:
  assumes "attr \<in> set (dir tft)" and "attr \<notin> set exclude"
  shows "\<exists>pre post t_pre t_step t_end.
           dir tft = pre @ attr # post
         \<and> add_methods_loop tft tensor_type pre = Inr t_pre
         \<and> add_method tft t_pre attr = Inr t_step
         \<and> getattr t_step attr = getattr tft attr
         \<and> (hasattr t_pre attr \<longrightarrow> getattr t_step (native_name attr) = getattr t_pre attr)
         \<and> add_methods_loop tft t_step post = Inr t_end
         \<and> add_methods_from_native_tensor tft tensor_type tft = Inr t_end
         \<and> (no_native_clash tft \<longrightarrow>
              getattr t_end attr = getattr tft attr
              \<and> (hasattr tensor_type attr \<longrightarrow>
                   getattr t_end (native_name attr) = getattr tensor_type attr))"
proof -
  from assms(1) obtain pre post where sp: "dir tft = pre @ attr # post"
    by (auto simp: in_set_conv_decomp)
  have sub: "set pre \<subseteq> set (dir tft)" "set post \<subseteq> set (dir tft)"
    using sp by auto
  obtain t_pre where t_pre: "add_methods_loop tft tensor_type pre = Inr t_pre"
    using add_methods_loop_ok [OF sub(1)] by blast
  obtain t_step where t_step: "add_method tft t_pre attr = Inr t_step"
    using add_method_ok [OF assms(1)] by blast
  obtain t_end where t_end: "add_methods_loop tft t_step post = Inr t_end"
    using add_methods_loop_ok [OF sub(2)] by blast
  have whole: "add_methods_from_native_tensor tft tensor_type tft = Inr t_end"
    by (simp add: add_methods_from_native_tensor_def sp add_methods_loop_append
        t_pre t_step t_end)
  have copy: "getattr t_step attr = getattr tft attr"
    using add_method_copy(1) [OF t_step assms(2)] by (rule getattr_eq)
  have al: "hasattr t_pre attr \<longrightarrow> getattr t_step (native_name attr) = getattr t_pre attr"
    using add_method_copy(3) [OF t_step assms(2)]
    by (auto simp: hasattr_def intro: getattr_eq2)
  have fin: "getattr t_end attr = getattr tft attr
      \<and> (hasattr tensor_type attr \<longrightarrow>
                   getattr t_end (native_name attr) = getattr tensor_type attr)"
    if "no_native_clash tft"
  proof -
    have cf: "clash_free (dir tft)"
      using that by (simp add: no_native_clash_def clash_free_def)
    have loop: "add_methods_loop tft tensor_type (dir tft) = Inr t_end"
      using whole by (simp add: add_methods_from_native_tensor_def)
    have "map_of t_end attr = map_of tft attr"
      by (rule add_methods_loop_copy [OF loop distinct_dir cf assms])
    moreover have "map_of t_end (native_name attr) = map_of tensor_type attr"
      if "hasattr tensor_type attr"
      by (rule add_methods_loop_alias [OF loop distinct_dir cf assms that])
    ultimately show ?thesis
      by (auto simp: hasattr_def intro: getattr_eq getattr_eq2)
  qed
  from sp t_pre t_step copy al t_end whole fin show ?thesis by blast
qed

theorem add_methods_copies_and_aliases_witness:
  "''__add__'' \<in> set (dir example_TensorFlowTensor) \<and> ''__add__'' \<notin> set exclude
   \<and> no_native_clash example_TensorFlowTensor \<and> hasattr example_Tensor ''__add__''
   \<and> (\<exists>t_end. add_methods_from_native_tensor example_TensorFlowTensor example_Tensor
                  example_TensorFlowTensor = Inr t_end
         \<and> getattr t_end ''__add__'' = Inr (Native ''TensorFlowTensor.__add__'')
         \<and> getattr t_end ''native___add__'' = Inr (Native ''Tensor.__add__''))"
proof -
  have d: "dir example_TensorFlowTensor = [''__add__'', ''__init__'', ''get'', ''send'', ''shape'']"
    by (simp add: example_TensorFlowTensor_def dir_def)
  have h1: "''__add__'' \<in> set (dir example_TensorFlowTensor)"
    by (simp add: d)
  have h2: "''__add__'' \<notin> set exclude"
    by (simp add: exclude_def)
  have h3: "no_native_clash example_TensorFlowTensor"
    by (simp add: no_native_clash_def d exclude_def native_name_def)
  have h4: "hasattr example_Tensor ''__add__''"
    by (simp add: hasattr_def example_Tensor_def)
  have g1: "getattr example_TensorFlowTensor ''__add__'' = Inr (Native ''TensorFlowTensor.__add__'')"
    by (simp add: getattr_def example_TensorFlowTensor_def)
  have g2: "getattr example_Tensor ''__add__'' = Inr (Native ''Tensor.__add__'')"
    by (simp add: getattr_def example_Tensor_def)
  have n: "native_name ''__add__'' = ''native___add__''"
    by (simp add: native_name_def)
  from add_methods_copies_and_aliases [OF h1 h2, of example_Tensor] h3 h4 g1 g2 n
  have "\<exists>t_end. add_methods_from_native_tensor example_TensorFlowTensor example_Tensor
                  example_TensorFlowTensor = Inr t_end
         \<and> getattr t_end ''__add__'' = Inr (Native ''TensorFlowTensor.__add__'')
         \<and> getattr t_end ''native___add__'' = Inr (Native ''Tensor.__add__'')"
    by auto
  with h1 h2 h3 h4 show ?thesis by blast
qed

section \<open>Constructing the hook\<close>

lemma prologue_fields:
  "classes (init_prologue ext self tf lw s) = classes s"
  "workers (init_prologue ext self tf lw s) = workers s"
  "next_worker (init_prologue ext self tf lw s) = next_worker s"
  "log (init_prologue ext self tf lw s) = log s"
  "syft_local_worker (init_prologue ext self tf lw s) = syft_local_worker s"
  "syft_hook (init_prologue ext self tf lw s) = syft_hook s"
  "syft_tensorflow (init_prologue ext self tf lw s) = Some (TensorFlowAttributes ext tf self)"
  "syft_framework (init_prologue ext self tf lw s) = Some (TensorFlowAttributes ext tf self)"
  "modules (init_prologue ext self tf lw s)
     = (modules s)(tf := setattr (modules s tf) ''hook'' (HookRef self))"
  "hooks (init_prologue ext self tf lw s) self
     = \<lparr>tensorflow = tf, framework = tf, local_worker = lw,
        to_auto_overload = None, args_hook_for_overloaded_attr = None\<rparr>"
  by (simp_all add: init_prologue_def set_attrs_hook_def TensorFlowAttributes_def Let_def)

lemma prologue_marker:
  "hasattr (modules (init_prologue ext self tf lw s) tf) ''tf_hooked''
     = hasattr (modules s tf) ''tf_hooked''"
  by (simp add: prologue_fields hasattr_setattr)

lemma init_already_hooked:
  assumes "hasattr (modules s tf) ''tf_hooked''"
  shows "TensorFlowHook_init ext self tf lw is_client s =
     Inr ((init_prologue ext self tf lw s)
            \<lparr>log := log s @ [already_hooked_warning],
              hooks := (hooks (init_prologue ext self tf lw s))
                 (self := (hooks (init_prologue ext self tf lw s) self)
                            \<lparr>local_worker := syft_local_worker s\<rparr>)\<rparr>)"
  using assms
  by (simp add: TensorFlowHook_init_def Let_def prologue_fields hasattr_setattr)


lemma hook_func_keeps:
  assumes "keeps_attributes perform" and "hook_func perform excl m f = Inr m'" and "hasattr m a"
  shows "hasattr m' a"
proof -
  from assms(2) have "m' = m \<or> perform m f = Inr m'"
    by (auto simp: hook_func_def split: if_splits list.splits)
  with assms(1,3) show ?thesis
    unfolding keeps_attributes_def by blast
qed

lemma hook_funcs_keeps:
  assumes "keeps_attributes perform"
  shows "hook_funcs perform excl m names = Inr m' \<Longrightarrow> hasattr m a \<Longrightarrow> hasattr m' a"
proof (induction names arbitrary: m)
  case Nil
  then show ?case by simp
next
  case (Cons f rest)
  from Cons.prems(1) obtain m1 where m1: "hook_func perform excl m f = Inr m1"
    and rest: "hook_funcs perform excl m1 rest = Inr m'"
    by (auto split: sum.splits)
  from hook_func_keeps [OF assms m1 Cons.prems(2)] Cons.IH [OF rest] show ?case by simp
qed

lemma hook_modules_keeps:
  assumes "keeps_attributes perform"
  shows "hook_modules perform excl mods s = Inr s' \<Longrightarrow>
    (hasattr (modules s k) a \<longrightarrow> hasattr (modules s' k) a) \<and> log s' = log s"
proof (induction mods arbitrary: s)
  case Nil
  then show ?case by simp
next
  case (Cons nm rest)
  obtain name m where nm: "nm = (name, m)" by (cases nm)
  from Cons.prems nm obtain ns where ns: "hook_module perform excl (modules s m) = Inr ns"
    and rest: "hook_modules perform excl rest (s\<lparr>modules := (modules s)(m := ns)\<rparr>) = Inr s'"
    by (auto split: sum.splits)
  have "hasattr (modules s m) a \<Longrightarrow> hasattr ns a"
    using hook_funcs_keeps [OF assms] ns unfolding hook_module_def by blast
  with Cons.IH [OF rest] show ?case by (auto split: if_splits)
qed

lemma set_on_Module_keeps:
  "set_on_Module h name v s = Inr s' \<Longrightarrow>
    (hasattr (modules s k) a \<longrightarrow> hasattr (modules s' k) a) \<and> log s' = log s"
  by (auto simp: set_on_Module_def hasattr_setattr split: sum.splits pyval.splits)

lemma hook_keras_module_keeps:
  assumes "hook_keras_module h s = Inr s'"
  shows "(hasattr (modules s k) a \<longrightarrow> hasattr (modules s' k) a) \<and> log s' = log s"
proof -
  from assms obtain s1 s2 s3 where
    "set_on_Module h ''send'' ModuleSend s = Inr s1"
    "set_on_Module h ''send_'' ModuleSend s1 = Inr s2"
    "set_on_Module h ''get_'' ModuleGet s2 = Inr s3"
    "set_on_Module h ''get'' ModuleGet s3 = Inr s'"
    by (auto simp: hook_keras_module_def split: sum.splits)
  from set_on_Module_keeps [OF this(1), of k a] set_on_Module_keeps [OF this(2), of k a]
    set_on_Module_keeps [OF this(3), of k a] set_on_Module_keeps [OF this(4), of k a]
  show ?thesis by simp
qed

lemma hook_native_tensor_keeps:
  "hook_native_tensor h t st s = Inr s' \<Longrightarrow> modules s' = modules s \<and> log s' = log s
     \<and> syft_tensorflow s' = syft_tensorflow s"
  by (auto simp: hook_native_tensor_def split: sum.splits)

lemma init_local_worker_keeps:
  "modules (init_local_worker self c s) = modules s"
  "log (init_local_worker self c s) = log s"
  "syft_tensorflow (init_local_worker self c s) = syft_tensorflow s"
  by (simp_all add: init_local_worker_def VirtualWorker_def Let_def split: option.splits)

lemma first_hook_marks:
  assumes k: "keeps_attributes (perform_overloading ext)"
    and i: "TensorFlowHook_init ext self tf lw c s = Inr s1"
  shows "hasattr (modules s1 tf) ''tf_hooked''"
    and "\<not> hasattr (modules s tf) ''tf_hooked'' \<Longrightarrow> log s1 = log s"
proof -
  let ?p = "init_prologue ext self tf lw s"
  show "hasattr (modules s1 tf) ''tf_hooked''"
  proof (cases "hasattr (modules s tf) ''tf_hooked''")
    case True
    from i show ?thesis
      unfolding init_already_hooked [OF True]
      using True by (auto simp: prologue_fields hasattr_setattr)
  next
    case False
    define s6 where "s6 = ?p\<lparr>modules := (modules ?p)(tf := setattr (modules ?p tf) ''tf_hooked'' (PyBool True))\<rparr>"
    define s7 where "s7 = init_local_worker self c s6"
    define s8 where "s8 = s7\<lparr>hooks := (hooks s7)
                      (self := (hooks s7 self)\<lparr>to_auto_overload := Some [],
                                               args_hook_for_overloaded_attr := Some []\<rparr>)\<rparr>"
    from i False obtain s9 s10 s11 where
      s9: "hook_native_tensor self Tensor TensorFlowTensor s8 = Inr s9"
      and s10: "hook_tensorflow_module ext s9 = Inr s10"
      and s11: "hook_keras_module self s10 = Inr s11"
      and s1: "s1 = s11\<lparr>syft_local_worker := local_worker (hooks s11 self), syft_hook := Some self\<rparr>"
      by (auto simp: TensorFlowHook_init_def Let_def prologue_marker s6_def s7_def s8_def
          split: sum.splits)
    have "hasattr (modules s8 tf) ''tf_hooked''"
      by (simp add: s8_def s7_def s6_def init_local_worker_keeps hasattr_setattr)
    with hook_native_tensor_keeps [OF s9] have m9: "hasattr (modules s9 tf) ''tf_hooked''"
      by simp
    from s10 obtain attrs :: tf_attributes where
      "hook_modules (perform_overloading ext) (attrs_exclude attrs) (tensorflow_modules attrs) s9 = Inr s10"
      by (auto simp: hook_tensorflow_module_def split: option.splits)
    from hook_modules_keeps [OF k this, of tf "''tf_hooked''"] m9
    have "hasattr (modules s10 tf) ''tf_hooked''" by simp
    with hook_keras_module_keeps [OF s11, of tf "''tf_hooked''"]
    show ?thesis by (simp add: s1)
  qed
  show "log s1 = log s" if nh: "\<not> hasattr (modules s tf) ''tf_hooked''"
  proof -
    define s6 where "s6 = ?p\<lparr>modules := (modules ?p)(tf := setattr (modules ?p tf) ''tf_hooked'' (PyBool True))\<rparr>"
    define s7 where "s7 = init_local_worker self c s6"
    define s8 where "s8 = s7\<lparr>hooks := (hooks s7)
                      (self := (hooks s7 self)\<lparr>to_auto_overload := Some [],
                                               args_hook_for_overloaded_attr := Some []\<rparr>)\<rparr>"
    from i nh obtain s9 s10 s11 where
      s9: "hook_native_tensor self Tensor TensorFlowTensor s8 = Inr s9"
      and s10: "hook_tensorflow_module ext s9 = Inr s10"
      and s11: "hook_keras_module self s10 = Inr s11"
      and s1: "s1 = s11\<lparr>syft_local_worker := local_worker (hooks s11 self), syft_hook := Some self\<rparr>"
      by (auto simp: TensorFlowHook_init_def Let_def prologue_marker s6_def s7_def s8_def
          split: sum.splits)
    have "log s8 = log s"
      by (simp add: s8_def s7_def s6_def init_local_worker_keeps prologue_fields)
    with hook_native_tensor_keeps [OF s9] have l9: "log s9 = log s" by simp
    from s10 obtain attrs :: tf_attributes where
      "hook_modules (perform_overloading ext) (attrs_exclude attrs) (tensorflow_modules attrs) s9 = Inr s10"
      by (auto simp: hook_tensorflow_module_def split: option.splits)
    from hook_modules_keeps [OF k this, of tf "''tf_hooked''"] l9
    have "log s10 = log s" by simp
    with hook_keras_module_keeps [OF s11, of tf "''tf_hooked''"]
    show ?thesis by (simp add: s1)
  qed
qed

text \<open>
  Claim C2. After a first construction of the hook on a framework module has
  returned, the module carries the marker \<^verbatim>\<open>tf_hooked\<close>, and the first construction
  logged nothing if the marker was absent before it. A second construction on the
  same module then returns normally (no exception), leaves the native tensor type's
  method table, and every other class, as the first left it, and appends exactly
  one warning to the log.
\<close>

theorem second_hook_is_skipped:
  assumes "keeps_attributes (perform_overloading ext)"
    and "TensorFlowHook_init ext self1 tf lw1 c1 s = Inr s1"
  shows "hasattr (modules s1 tf) ''tf_hooked''
     \<and> (\<not> hasattr (modules s tf) ''tf_hooked'' \<longrightarrow> log s1 = log s)
     \<and> (\<exists>s2. TensorFlowHook_init ext2 self2 tf lw2 c2 s1 = Inr s2
           \<and> classes s2 Tensor = classes s1 Tensor
           \<and> classes s2 = classes s1
           \<and> log s2 = log s1 @ [already_hooked_warning])"
proof -
  have m: "hasattr (modules s1 tf) ''tf_hooked''"
    by (rule first_hook_marks(1) [OF assms])
  have l: "\<not> hasattr (modules s tf) ''tf_hooked'' \<longrightarrow> log s1 = log s"
    using first_hook_marks(2) [OF assms] by blast
  show ?thesis
    using m l unfolding init_already_hooked [OF m]
    by (simp add: prologue_fields)
qed

lemma perform_keeps_attributes: "keeps_attributes perform_function_overloading"
  unfolding keeps_attributes_def
  by (auto simp: perform_function_overloading_def hasattr_setattr split: sum.splits)

lemma example_first_hook: "\<exists>s1. TensorFlowHook_init example_ext 0 0 None True example_state = Inr s1
    \<and> syft_local_worker s1 = Some 0 \<and> syft_hook s1 = Some 0"
  by (simp add: TensorFlowHook_init_def init_prologue_def set_attrs_hook_def
      TensorFlowAttributes_def example_ext_def example_state_def example_tensorflow_def
      example_math_def example_Tensor_def example_TensorFlowTensor_def hasattr_def setattr_def
      getattr_def init_local_worker_def VirtualWorker_def hook_native_tensor_def
      add_registration_to_init_def hook_properties_def add_methods_from_native_tensor_def
      add_method_def exclude_def dir_def native_name_def hook_tensorflow_module_def
      hook_module_def hook_func_def isupper_def perform_function_overloading_def
      hook_keras_module_def set_on_Module_def Tensor_def TensorFlowTensor_def Let_def)

lemma example_state_fresh: "\<not> hasattr (modules example_state 0) ''tf_hooked''" "log example_state = []"
  by (simp_all add: example_state_def example_tensorflow_def hasattr_def)

theorem second_hook_is_skipped_witness:
  "keeps_attributes (perform_overloading example_ext)
   \<and> (\<exists>s1. TensorFlowHook_init example_ext 0 0 None True example_state = Inr s1
         \<and> hasattr (modules s1 0) ''tf_hooked''
         \<and> log s1 = []
         \<and> (\<exists>s2. TensorFlowHook_init example_ext 1 0 None True s1 = Inr s2
               \<and> classes s2 Tensor = classes s1 Tensor
               \<and> log s2 = [already_hooked_warning]))"
proof -
  have k: "keeps_attributes (perform_overloading example_ext)"
    by (simp add: example_ext_def perform_keeps_attributes)
  from example_first_hook obtain s1
    where s1: "TensorFlowHook_init example_ext 0 0 None True example_state = Inr s1"
    by blast
  from second_hook_is_skipped [OF k s1, of example_ext 1 None True] example_state_fresh
  have "hasattr (modules s1 0) ''tf_hooked'' \<and> log s1 = []
         \<and> (\<exists>s2. TensorFlowHook_init example_ext 1 0 None True s1 = Inr s2
               \<and> classes s2 Tensor = classes s1 Tensor
               \<and> log s2 = [already_hooked_warning])"
    by auto
  with k s1 show ?thesis by blast
qed


section \<open>The hooked constructor\<close>

lemma add_registration_keeps_native_init:
  assumes "getattr tensor_type ''__init__'' = Inr init0"
  shows "\<exists>tt'. add_registration_to_init hook_self tensor_type is_tensor = Inr tt'
      \<and> getattr tt' ''native___init__''
          = Inr (case map_of tensor_type ''native___init__'' of
                   None \<Rightarrow> init0 | Some kept \<Rightarrow> kept)
      \<and> getattr tt' ''__init__'' = Inr (NewInit hook_self is_tensor)"
proof -
  define t1 where
    "t1 = (if hasattr tensor_type ''native___init__'' then tensor_type
           else setattr tensor_type ''native___init__'' init0)"
  let ?tt = "setattr t1 ''__init__'' (NewInit hook_self is_tensor)"
  have "add_registration_to_init hook_self tensor_type is_tensor = Inr ?tt"
    using assms by (simp add: add_registration_to_init_def hasattr_dir t1_def)
  moreover have "getattr ?tt ''native___init__''
      = Inr (case map_of tensor_type ''native___init__'' of None \<Rightarrow> init0 | Some kept \<Rightarrow> kept)"
    by (auto simp: getattr_def map_of_setattr t1_def hasattr_def split: option.splits)
  moreover have "getattr ?tt ''__init__'' = Inr (NewInit hook_self is_tensor)"
    by (simp add: getattr_def map_of_setattr)
  ultimately show ?thesis by blast
qed

text \<open>
  Claim C5. The new constructor takes an \<open>owner\<close> and never uses it: whatever
  \<^verbatim>\<open>initialize_tensor\<close> does, the constructor calls it with no owner, so the result is
  the same for every \<open>owner\<close> and \<open>register\<close>. With an \<^verbatim>\<open>initialize_tensor\<close> that follows
  the specification, a tensor constructed with \<open>owner = 9\<close> on the alias table of
  the example ends up owned by the hook's local worker \<open>0\<close>, while the same helper
  given the owner directly makes \<open>9\<close> the owner.
\<close>

theorem new_init_ignores_owner:
  "new_init initialize hook_self is_tensor cls args owner ident reg kwargs
     = initialize hook_self cls None ident is_tensor args kwargs
   \<and> new_init
        (\<lambda>h c ow i b init_args init_kwargs.
           initialize_tensor (\<lambda>g. (g, Suc g)) example_call example_state_with_worker h
             [(''native___init__'', Native ''Tensor.__init__'')] c ow i b init_args init_kwargs 41)
        0 True example_inst [1, 2] (Some 9) None True [(''dtype'', 3)]
     = Inr (\<lparr>syft_id = Some 41, owner_attr = Some (Some 0), is_wrapper_attr = Some False,
             native_calls = [(Native ''Tensor.__init__'', [1, 2], [(''dtype'', 3)])]\<rparr>, 42)
   \<and> initialize_tensor (\<lambda>g. (g, Suc g)) example_call example_state_with_worker 0
        [(''native___init__'', Native ''Tensor.__init__'')] example_inst (Some 9) None True
        [1, 2] [(''dtype'', 3)] 41
     = Inr (\<lparr>syft_id = Some 41, owner_attr = Some (Some 9), is_wrapper_attr = Some False,
             native_calls = [(Native ''Tensor.__init__'', [1, 2], [(''dtype'', 3)])]\<rparr>, 42)"
  by (simp add: new_init_def initialize_tensor_def id_setter_def owner_setter_def
      is_wrapper_setter_def getattr_def example_call_def example_inst_def
      example_state_with_worker_def example_state_def)

section \<open>Sending, getting and adding tensors\<close>

lemma send_local:
  assumes "child t = Local x" and "reachable W w = Some wk"
  shows "send t w W =
     Inr (t\<lparr>is_wrapper := True,
            child := Remote \<lparr>location = w, id_at_location = next_object_id wk,
                             pointer_owner = tensor_owner t\<rparr>\<rparr>,
          W\<lparr>reachable := (reachable W)
               (w \<mapsto> wk\<lparr>objects := (objects wk)(next_object_id wk \<mapsto> x),
                        next_object_id := Suc (next_object_id wk)\<rparr>)\<rparr>)"
  using assms by (simp add: send_def register_def Let_def)

lemma get_remote:
  assumes "child t = Remote p" and "reachable W (location p) = Some wk"
    and "objects wk (id_at_location p) = Some x"
  shows "get t W = Inr (t\<lparr>is_wrapper := False, child := Local x\<rparr>, W)"
  using assms by (simp add: get_def retrieve_def)

text \<open>
  Claim C1. For a tensor \<open>t\<close> with local payload \<open>x\<close> and a worker \<open>w\<close> that can be
  reached, \<open>send\<close> succeeds and returns a wrapper whose child is a pointer to \<open>w\<close>;
  \<open>get\<close> on it succeeds and returns a tensor with local child \<open>x\<close>, the same
  payload bit for bit, \<open>is_wrapper = False\<close> and the id and owner of \<open>t\<close>: the
  tensor \<open>t\<close> itself when \<open>t\<close> was no wrapper.
\<close>

theorem send_get_round_trip:
  assumes "child t = Local x" and "reachable W w = Some wk"
  shows "\<exists>ptr W' got W''.
           send t w W = Inr (ptr, W')
         \<and> child ptr = Remote \<lparr>location = w, id_at_location = next_object_id wk,
                                pointer_owner = tensor_owner t\<rparr>
         \<and> is_wrapper ptr
         \<and> get ptr W' = Inr (got, W'')
         \<and> child got = Local x
         \<and> \<not> is_wrapper got
         \<and> tensor_id got = tensor_id t
         \<and> tensor_owner got = tensor_owner t
         \<and> (\<not> is_wrapper t \<longrightarrow> got = t)"
proof -
  define ptr where "ptr = t\<lparr>is_wrapper := True,
            child := Remote \<lparr>location = w, id_at_location = next_object_id wk,
                             pointer_owner = tensor_owner t\<rparr>\<rparr>"
  define wk' where "wk' = wk\<lparr>objects := (objects wk)(next_object_id wk \<mapsto> x),
                        next_object_id := Suc (next_object_id wk)\<rparr>"
  define W' where "W' = W\<lparr>reachable := (reachable W)(w \<mapsto> wk')\<rparr>"
  define got where "got = ptr\<lparr>is_wrapper := False, child := Local x\<rparr>"
  have s: "send t w W = Inr (ptr, W')"
    unfolding ptr_def W'_def wk'_def by (rule send_local [OF assms])
  have c: "child ptr = Remote \<lparr>location = w, id_at_location = next_object_id wk,
                                pointer_owner = tensor_owner t\<rparr>"
    by (simp add: ptr_def)
  have "reachable W' w = Some wk'" and "objects wk' (next_object_id wk) = Some x"
    by (simp_all add: W'_def wk'_def)
  with get_remote [OF c, of W' wk' x] have g: "get ptr W' = Inr (got, W')"
    by (simp add: got_def)
  have "\<not> is_wrapper t \<longrightarrow> got = t"
    using assms(1) by (simp add: got_def ptr_def)
  with s g show ?thesis
    by (simp add: got_def ptr_def)
qed

theorem send_get_round_trip_witness:
  "child example_scalar = Local 2
   \<and> reachable (example_world example_scalar) 7 = Some \<lparr>objects = Map.empty, next_object_id = 0\<rparr>
   \<and> (\<exists>ptr W'. send example_scalar 7 (example_world example_scalar) = Inr (ptr, W')
         \<and> (\<exists>got W''. get ptr W' = Inr (got, W'') \<and> child got = Local 2 \<and> got = example_scalar))"
proof -
  have h1: "child example_scalar = Local 2"
    by (simp add: example_scalar_def)
  have h2: "reachable (example_world example_scalar) 7
      = Some \<lparr>objects = Map.empty, next_object_id = 0\<rparr>"
    by (simp add: example_world_def)
  have h3: "\<not> is_wrapper example_scalar"
    by (simp add: example_scalar_def)
  from send_get_round_trip [OF h1 h2] h3 h1 h2 show ?thesis
    by auto
qed

lemma add_local:
  assumes "child a = Local x" and "child b = Local y"
  shows "add kern a b W =
     Inr (\<lparr>tensor_id = id_provider W, tensor_owner = tensor_owner a, is_wrapper = False,
           child = Local (kern ''__add__'' [x, y] [])\<rparr>,
          W\<lparr>id_provider := Suc (id_provider W)\<rparr>)"
  using assms by (simp add: add_def binary_op_def)

lemma add_remote:
  assumes "child a = Remote p" and "child b = Remote q" and "location q = location p"
    and "reachable W (location p) = Some wk"
    and "objects wk (id_at_location p) = Some x" and "objects wk (id_at_location q) = Some y"
  shows "add kern a b W =
     Inr (\<lparr>tensor_id = id_provider W, tensor_owner = tensor_owner a, is_wrapper = True,
           child = Remote \<lparr>location = location p, id_at_location = next_object_id wk,
                            pointer_owner = pointer_owner p\<rparr>\<rparr>,
          W\<lparr>reachable := (reachable W)
               (location p \<mapsto> wk\<lparr>objects := (objects wk)
                                     (next_object_id wk \<mapsto> kern ''__add__'' [x, y] []),
                                 next_object_id := Suc (next_object_id wk)\<rparr>),
            id_provider := Suc (id_provider W)\<rparr>)"
  using assms by (simp add: add_def binary_op_def execute_def retrieve_def register_def Let_def)

text \<open>
  Claim C3. For tensors \<open>a\<close> and \<open>b\<close> with local payloads and a worker \<open>w\<close> that can
  be reached: sending both to \<open>w\<close>, adding the two pointers and getting the sum
  succeeds, and the tensor obtained has the local payload that adding \<open>a\<close> and \<open>b\<close>
  locally gives, the kernel's sum of the two payloads.
\<close>

theorem pointer_add_matches_local_add:
  assumes "child a = Local x" and "child b = Local y" and "reachable W w = Some wk"
  shows "\<exists>pa W1 pb W2 pz W3 z W4 zl Wl.
           send a w W = Inr (pa, W1)
         \<and> send b w W1 = Inr (pb, W2)
         \<and> add kern pa pb W2 = Inr (pz, W3)
         \<and> get pz W3 = Inr (z, W4)
         \<and> add kern a b W = Inr (zl, Wl)
         \<and> child z = child zl
         \<and> child z = Local (kern ''__add__'' [x, y] [])
         \<and> \<not> is_wrapper z"
proof -
  let ?n = "next_object_id wk"
  define wk1 where "wk1 = wk\<lparr>objects := (objects wk)(?n \<mapsto> x), next_object_id := Suc ?n\<rparr>"
  define wk2 where "wk2 = wk1\<lparr>objects := (objects wk1)(Suc ?n \<mapsto> y),
                               next_object_id := Suc (Suc ?n)\<rparr>"
  define wk3 where "wk3 = wk2\<lparr>objects := (objects wk2)
                                 (Suc (Suc ?n) \<mapsto> kern ''__add__'' [x, y] []),
                               next_object_id := Suc (Suc (Suc ?n))\<rparr>"
  define pa where "pa = a\<lparr>is_wrapper := True,
      child := Remote \<lparr>location = w, id_at_location = ?n, pointer_owner = tensor_owner a\<rparr>\<rparr>"
  define pb where "pb = b\<lparr>is_wrapper := True,
      child := Remote \<lparr>location = w, id_at_location = Suc ?n, pointer_owner = tensor_owner b\<rparr>\<rparr>"
  define W1 where "W1 = W\<lparr>reachable := (reachable W)(w \<mapsto> wk1)\<rparr>"
  define W2 where "W2 = W1\<lparr>reachable := (reachable W1)(w \<mapsto> wk2)\<rparr>"
  define rz where "rz = \<lparr>location = w, id_at_location = Suc (Suc ?n),
                         pointer_owner = tensor_owner a\<rparr>"
  define pz where "pz = a\<lparr>tensor_id := id_provider W2, is_wrapper := True, child := Remote rz\<rparr>"
  define W3 where "W3 = W2\<lparr>reachable := (reachable W2)(w \<mapsto> wk3),
                           id_provider := Suc (id_provider W2)\<rparr>"
  define z where "z = pz\<lparr>is_wrapper := False, child := Local (kern ''__add__'' [x, y] [])\<rparr>"
  have s1: "send a w W = Inr (pa, W1)"
    unfolding pa_def W1_def wk1_def by (rule send_local [OF assms(1,3)])
  have s2: "send b w W1 = Inr (pb, W2)"
    using send_local [OF assms(2), of W1 w wk1]
    by (simp add: pb_def W2_def wk2_def W1_def wk1_def)
  have s3: "add kern pa pb W2 = Inr (pz, W3)"
    using add_remote [of pa "\<lparr>location = w, id_at_location = ?n, pointer_owner = tensor_owner a\<rparr>"
        pb "\<lparr>location = w, id_at_location = Suc ?n, pointer_owner = tensor_owner b\<rparr>"
        W2 wk2 x y kern]
    by (simp add: pa_def pb_def W2_def wk2_def wk1_def pz_def rz_def W3_def wk3_def)
  have c: "child pz = Remote rz"
    by (simp add: pz_def)
  have "reachable W3 (location rz) = Some wk3"
    and "objects wk3 (id_at_location rz) = Some (kern ''__add__'' [x, y] [])"
    by (simp_all add: W3_def wk3_def rz_def)
  with get_remote [OF c, of W3 wk3] have s4: "get pz W3 = Inr (z, W3)"
    by (simp add: z_def)
  from s1 s2 s3 s4 add_local [OF assms(1,2), of kern W] show ?thesis
    by (simp add: z_def)
qed

theorem pointer_add_matches_local_add_witness:
  "child (example_vector 1 [3, 3]) = Local [3, 3]
   \<and> child (example_vector 2 [2, 2]) = Local [2, 2]
   \<and> reachable (example_world (example_vector 1 [3, 3])) 7
        = Some \<lparr>objects = Map.empty, next_object_id = 0\<rparr>
   \<and> (\<exists>pa W1 pb W2 pz W3 z W4.
           send (example_vector 1 [3, 3]) 7 (example_world (example_vector 1 [3, 3])) = Inr (pa, W1)
         \<and> send (example_vector 2 [2, 2]) 7 W1 = Inr (pb, W2)
         \<and> add example_kernel pa pb W2 = Inr (pz, W3)
         \<and> get pz W3 = Inr (z, W4)
         \<and> child z = Local [5, 5])"
proof -
  have h1: "child (example_vector 1 [3, 3]) = Local [3, 3]"
    and h2: "child (example_vector 2 [2, 2]) = Local [2, 2]"
    by (simp_all add: example_vector_def)
  have h3: "reachable (example_world (example_vector 1 [3, 3])) 7
        = Some \<lparr>objects = Map.empty, next_object_id = 0\<rparr>"
    by (simp add: example_world_def)
  have k: "example_kernel ''__add__'' [[3, 3], [2, 2]] [] = [5, 5]"
    by (simp add: example_kernel_def)
  from pointer_add_matches_local_add [OF h1 h2 h3, of example_kernel] k h1 h2 h3 show ?thesis
    by auto
qed

section \<open>Sending and getting a module\<close>

lemma send_each_all:
  assumes c: "tensor_contract send_op get_op weights ok is_local is_pointer dest kwargs"
  shows "distinct ps \<Longrightarrow> ok w \<Longrightarrow> \<forall>p \<in> set ps. is_local w p (val p)
    \<Longrightarrow> \<forall>q \<in> Q. q \<notin> set ps \<and> is_pointer w q (val q)
    \<Longrightarrow> \<exists>w'. send_each send_op ps dest kwargs w = Inr w' \<and> ok w' \<and> weights w' = weights w
          \<and> (\<forall>p \<in> set ps \<union> Q. is_pointer w' p (val p))"
proof (induction ps arbitrary: w Q)
  case Nil
  then show ?case by simp
next
  case (Cons p ps)
  from c Cons.prems(2,3) obtain w1 where w1: "send_op p dest kwargs w = Inr w1" "ok w1"
    "is_pointer w1 p (val p)" "weights w1 = weights w"
    and loc: "\<And>q u. q \<noteq> p \<Longrightarrow> is_local w q u \<Longrightarrow> is_local w1 q u"
    and ptr: "\<And>q u. q \<noteq> p \<Longrightarrow> is_pointer w q u \<Longrightarrow> is_pointer w1 q u"
    unfolding tensor_contract_def by (metis list.set_intros(1))
  have d: "distinct ps" and np: "p \<notin> set ps" using Cons.prems(1) by simp_all
  have l1: "\<forall>q \<in> set ps. is_local w1 q (val q)"
    using Cons.prems(3) np loc by (metis list.set_intros(2))
  have q1: "\<forall>q \<in> insert p Q. q \<notin> set ps \<and> is_pointer w1 q (val q)"
    using Cons.prems(4) np w1(3) ptr by auto
  from Cons.IH [OF d w1(2) l1 q1] obtain w' where
    "send_each send_op ps dest kwargs w1 = Inr w'" "ok w'" "weights w' = weights w1"
    "\<forall>q \<in> set ps \<union> insert p Q. is_pointer w' q (val q)"
    by blast
  with w1 show ?case by auto
qed

lemma get_each_all:
  assumes c: "tensor_contract send_op get_op weights ok is_local is_pointer dest kwargs"
  shows "distinct ps \<Longrightarrow> ok w \<Longrightarrow> \<forall>p \<in> set ps. is_pointer w p (val p)
    \<Longrightarrow> \<forall>q \<in> Q. q \<notin> set ps \<and> is_local w q (val q)
    \<Longrightarrow> \<exists>w'. get_each get_op ps w = Inr w' \<and> ok w' \<and> weights w' = weights w
          \<and> (\<forall>p \<in> set ps \<union> Q. is_local w' p (val p))"
proof (induction ps arbitrary: w Q)
  case Nil
  then show ?case by simp
next
  case (Cons p ps)
  from c Cons.prems(2,3) obtain w1 where w1: "get_op p w = Inr w1" "ok w1"
    "is_local w1 p (val p)" "weights w1 = weights w"
    and loc: "\<And>q u. q \<noteq> p \<Longrightarrow> is_local w q u \<Longrightarrow> is_local w1 q u"
    and ptr: "\<And>q u. q \<noteq> p \<Longrightarrow> is_pointer w q u \<Longrightarrow> is_pointer w1 q u"
    unfolding tensor_contract_def by (metis list.set_intros(1))
  have d: "distinct ps" and np: "p \<notin> set ps" using Cons.prems(1) by simp_all
  have l1: "\<forall>q \<in> set ps. is_pointer w1 q (val q)"
    using Cons.prems(3) np ptr by (metis list.set_intros(2))
  have q1: "\<forall>q \<in> insert p Q. q \<notin> set ps \<and> is_local w1 q (val q)"
    using Cons.prems(4) np w1(3) loc by auto
  from Cons.IH [OF d w1(2) l1 q1] obtain w' where
    "get_each get_op ps w1 = Inr w'" "ok w'" "weights w' = weights w1"
    "\<forall>q \<in> set ps \<union> insert p Q. is_local w' q (val q)"
    by blast
  with w1 show ?case by auto
qed

lemma send_inplace_contract:
  assumes "can_reach d W" and "holds_local W p v"
  shows "\<exists>W'. send_inplace p d k W = Inr W' \<and> can_reach d W' \<and> holds_pointer W' p d v
     \<and> (\<forall>q u. q \<noteq> p \<and> holds_local W q u \<longrightarrow> holds_local W' q u)
     \<and> (\<forall>q u. q \<noteq> p \<and> holds_pointer W q d u \<longrightarrow> holds_pointer W' q d u)"
proof -
  from assms(1) obtain wk where wk: "reachable W d = Some wk"
    by (auto simp: can_reach_def)
  from assms(2) have c: "child (tensors W p) = Local v"
    by (simp add: holds_local_def)
  show ?thesis
    unfolding send_inplace_def send_local [OF c wk]
    using wk
    by (auto simp: can_reach_def holds_pointer_def holds_local_def split: child.splits)
qed

lemma get_inplace_contract:
  assumes "holds_pointer W p d v"
  shows "\<exists>W'. get_inplace p W = Inr W' \<and> reachable W' = reachable W \<and> holds_local W' p v
     \<and> (\<forall>q u. q \<noteq> p \<and> holds_local W q u \<longrightarrow> holds_local W' q u)
     \<and> (\<forall>q u. q \<noteq> p \<and> holds_pointer W q d u \<longrightarrow> holds_pointer W' q d u)"
proof -
  from assms obtain ptr wk where c: "child (tensors W p) = Remote ptr"
    and r: "reachable W (location ptr) = Some wk"
    and o: "objects wk (id_at_location ptr) = Some v"
    by (auto simp: holds_pointer_def split: child.splits option.splits)
  show ?thesis
    unfolding get_inplace_def get_remote [OF c r o]
    by (auto simp: holds_pointer_def holds_local_def split: child.splits)
qed

lemma spec_tensor_contract:
  "tensor_contract send_inplace get_inplace (\<lambda>W m. ws) (can_reach d) holds_local
     (\<lambda>W p. holds_pointer W p d) d ()"
  unfolding tensor_contract_def
proof (intro conjI allI impI)
  fix p :: nat and w :: "'a world" and v :: 'a
  assume a: "can_reach d w \<and> holds_local w p v"
  with send_inplace_contract [of d w p v "()"]
  show "\<exists>w'. send_inplace p d () w = Inr w' \<and> can_reach d w' \<and> holds_pointer w' p d v
      \<and> (\<lambda>W m. ws) w' = (\<lambda>W m. ws) w
      \<and> (\<forall>q u. q \<noteq> p \<and> holds_local w q u \<longrightarrow> holds_local w' q u)
      \<and> (\<forall>q u. q \<noteq> p \<and> holds_pointer w q d u \<longrightarrow> holds_pointer w' q d u)"
    by simp
next
  fix p :: nat and w :: "'a world" and v :: 'a
  assume a: "can_reach d w \<and> holds_pointer w p d v"
  with get_inplace_contract [of w p d v]
  show "\<exists>w'. get_inplace p w = Inr w' \<and> can_reach d w' \<and> holds_local w' p v
      \<and> (\<lambda>W m. ws) w' = (\<lambda>W m. ws) w
      \<and> (\<forall>q u. q \<noteq> p \<and> holds_local w q u \<longrightarrow> holds_local w' q u)
      \<and> (\<forall>q u. q \<noteq> p \<and> holds_pointer w q d u \<longrightarrow> holds_pointer w' q d u)"
    by (auto simp: can_reach_def)
qed

text \<open>
  Claim C6. \<^verbatim>\<open>_hook_keras_module\<close> sets \<^verbatim>\<open>send\<close> and \<^verbatim>\<open>send_\<close> of the class \<^verbatim>\<open>Module\<close> to
  \<^verbatim>\<open>module_send_\<close>, and \<^verbatim>\<open>get_\<close> and \<^verbatim>\<open>get\<close> to \<^verbatim>\<open>module_get_\<close>. With tensor methods that
  keep their contract, on a module whose weights are distinct tensors holding local
  payload: \<^verbatim>\<open>module_send_\<close> succeeds and returns the module it was given, with the same
  list of weights, every weight now a pointer to the destination holding that
  weight's payload; \<^verbatim>\<open>module_get_\<close> on the result succeeds, returns the same module,
  and every weight holds its payload locally again.
\<close>

theorem module_send_then_get:
  assumes "tensor_contract send_op get_op weights ok is_local is_pointer dest kwargs"
    and "ok w"
    and "distinct (weights w nn_self)"
    and "\<forall>p \<in> set (weights w nn_self). is_local w p (val p)"
  shows "(getattr (modules s (tensorflow (hooks s hook_self))) ''Module'' = Inr (ClassRef c) \<longrightarrow>
           (\<exists>s'. hook_keras_module hook_self s = Inr s'
              \<and> map (getattr (classes s' c)) [''send'', ''send_'', ''get_'', ''get'']
                  = [Inr ModuleSend, Inr ModuleSend, Inr ModuleGet, Inr ModuleGet]))
     \<and> (\<exists>w'. module_send send_op weights nn_self dest force_send kwargs w = Inr (nn_self, w')
       \<and> weights w' nn_self = weights w nn_self
       \<and> (\<forall>p \<in> set (weights w nn_self). is_pointer w' p (val p))
       \<and> (\<exists>w''. module_get get_op weights nn_self w' = Inr (nn_self, w'')
              \<and> weights w'' nn_self = weights w nn_self
              \<and> (\<forall>p \<in> set (weights w nn_self). is_local w'' p (val p))))"
proof -
  have inst: "getattr (modules s (tensorflow (hooks s hook_self))) ''Module'' = Inr (ClassRef c) \<longrightarrow>
           (\<exists>s'. hook_keras_module hook_self s = Inr s'
              \<and> map (getattr (classes s' c)) [''send'', ''send_'', ''get_'', ''get'']
                  = [Inr ModuleSend, Inr ModuleSend, Inr ModuleGet, Inr ModuleGet])"
    by (simp add: hook_keras_module_def set_on_Module_def getattr_def map_of_setattr)
  let ?ps = "weights w nn_self"
  from send_each_all [OF assms(1,3,2,4), of "{}"] obtain w' where
    s: "send_each send_op ?ps dest kwargs w = Inr w'" "ok w'" "weights w' = weights w"
    "\<forall>p \<in> set ?ps. is_pointer w' p (val p)"
    by auto
  from get_each_all [OF assms(1,3) s(2) s(4), of "{}"] obtain w'' where
    g: "get_each get_op ?ps w' = Inr w''" "weights w'' = weights w'"
    "\<forall>p \<in> set ?ps. is_local w'' p (val p)"
    by auto
  from s g inst show ?thesis
    by (simp add: module_send_def module_get_def)
qed

theorem module_send_then_get_witness:
  "tensor_contract send_inplace get_inplace (\<lambda>W m. [0, 1, 2]) (can_reach 7) holds_local
     (\<lambda>W p. holds_pointer W p 7) 7 ()
   \<and> can_reach 7 example_weights
   \<and> distinct [0, 1, 2 :: nat]
   \<and> holds_local example_weights 0 [0, 1] \<and> holds_local example_weights 1 [1, 1]
   \<and> holds_local example_weights 2 [2, 1]
   \<and> getattr (modules example_state (tensorflow (hooks example_state 0))) ''Module''
       = Inr (ClassRef 2)
   \<and> (\<exists>s'. hook_keras_module 0 example_state = Inr s'
         \<and> map (getattr (classes s' 2)) [''send'', ''send_'', ''get_'', ''get'']
             = [Inr ModuleSend, Inr ModuleSend, Inr ModuleGet, Inr ModuleGet])
   \<and> (\<exists>W'. module_send send_inplace (\<lambda>W m. [0, 1, 2]) 5 7 False () example_weights = Inr (5, W')
        \<and> holds_pointer W' 0 7 [0, 1] \<and> holds_pointer W' 1 7 [1, 1] \<and> holds_pointer W' 2 7 [2, 1]
        \<and> (\<exists>W''. module_get get_inplace (\<lambda>W m. [0, 1, 2]) 5 W' = Inr (5, W'')
              \<and> holds_local W'' 0 [0, 1] \<and> holds_local W'' 1 [1, 1] \<and> holds_local W'' 2 [2, 1]))"
proof -
  have h0: "getattr (modules example_state (tensorflow (hooks example_state 0))) ''Module''
       = Inr (ClassRef 2)"
    by (simp add: example_state_def example_tensorflow_def getattr_def)
  have h1: "can_reach 7 example_weights"
    by (simp add: can_reach_def example_weights_def)
  have h2: "distinct [0, 1, 2 :: nat]" by simp
  have l: "holds_local example_weights 0 [0, 1]" "holds_local example_weights 1 [1, 1]"
    "holds_local example_weights 2 [2, 1]"
    by (simp_all add: holds_local_def example_weights_def)
  then have h3: "\<forall>p \<in> set [0, 1, 2 :: nat]. holds_local example_weights p [real p, 1]"
    by simp
  from module_send_then_get [OF spec_tensor_contract [of "[0, 1, 2]" 7] h1,
      where nn_self = 5 and val = "\<lambda>p. [real p, 1]" and force_send = False
        and s = example_state and hook_self = 0 and c = 2]
    h0 h2 h3
  have "(\<exists>s'. hook_keras_module 0 example_state = Inr s'
         \<and> map (getattr (classes s' 2)) [''send'', ''send_'', ''get_'', ''get'']
             = [Inr ModuleSend, Inr ModuleSend, Inr ModuleGet, Inr ModuleGet])
     \<and> (\<exists>W'. module_send send_inplace (\<lambda>W m. [0, 1, 2]) 5 7 False () example_weights = Inr (5, W')
        \<and> holds_pointer W' 0 7 [0, 1] \<and> holds_pointer W' 1 7 [1, 1] \<and> holds_pointer W' 2 7 [2, 1]
        \<and> (\<exists>W''. module_get get_inplace (\<lambda>W m. [0, 1, 2]) 5 W' = Inr (5, W'')
              \<and> holds_local W'' 0 [0, 1] \<and> holds_local W'' 1 [1, 1] \<and> holds_local W'' 2 [2, 1]))"
    by simp
  with spec_tensor_contract [of "[0, 1, 2]" 7] h0 h1 h2 l show ?thesis
    by blast
qed

end
